theory Spec2Isabelle
  imports Main "HOL-Library.Multiset"
begin

section \<open>The scene orchestrator of scene/__init__.py\<close>

text \<open>
  The class \<open>Scene\<close> of \<^verbatim>\<open>src/scene/__init__.py\<close> is glue code: it looks at the file
  system, calls a dataset loader, writes two files, shuffles two lists, builds the camera
  lists and calls the Gaussian model. The embedding threads a \<open>world\<close> through the
  constructor: the file system, the state of the random generator, and the trace of the
  effects the constructor has on its surroundings (what it prints, which loader it calls,
  which files it writes, which operations of the model object it calls). Every function
  returns the world it leaves behind, also when it raises, so that the effects of a failed
  construction stay visible.
\<close>

subsection \<open>Python values\<close>

datatype py_error =
    AssertionError string
  | FileNotFoundError string
  | KeyError
  | IndexError

text \<open>
  \<open>load_iteration\<close> and \<open>self.loaded_iter\<close> hold \<open>None\<close> or an integer. Python's
  truth test (\<open>if load_iteration:\<close>, \<open>if self.loaded_iter:\<close>) is false for \<open>None\<close>
  and for \<open>0\<close>.
\<close>

definition truthy :: "int option \<Rightarrow> bool" where
  "truthy x = (case x of None \<Rightarrow> False | Some n \<Rightarrow> n \<noteq> 0)"

text \<open>\<open>str\<close> of an integer and of \<open>None\<close>, as \<open>format\<close> and \<open>"iteration_" + str(...)\<close> use it.\<close>

fun str_nat :: "nat \<Rightarrow> string" where
  "str_nat n =
     (if n < 10 then [''0123456789'' ! n]
      else str_nat (n div 10) @ [''0123456789'' ! (n mod 10)])"

declare str_nat.simps [simp del]

definition str_int :: "int \<Rightarrow> string" where
  "str_int i = (if i < 0 then CHR ''-'' # str_nat (nat (- i)) else str_nat (nat i))"

definition str_opt :: "int option \<Rightarrow> string" where
  "str_opt x = (case x of None \<Rightarrow> ''None'' | Some n \<Rightarrow> str_int n)"

text \<open>
  \<open>os.path.join\<close> of posixpath: a component that starts with the separator, or an empty
  path so far, restarts the path; a path that ends with the separator takes the
  component as it is; otherwise the separator goes in between.
\<close>

definition startswith_sep :: "string \<Rightarrow> bool" where
  "startswith_sep b = (case b of [] \<Rightarrow> False | c # _ \<Rightarrow> c = CHR ''/'')"

definition endswith_sep :: "string \<Rightarrow> bool" where
  "endswith_sep p = (case rev p of [] \<Rightarrow> False | c # _ \<Rightarrow> c = CHR ''/'')"

definition join_step :: "string \<Rightarrow> string \<Rightarrow> string" where
  "join_step path b =
     (if startswith_sep b \<or> path = [] then b
      else if endswith_sep path then path @ b
      else path @ ''/'' @ b)"

definition os_path_join :: "string \<Rightarrow> string list \<Rightarrow> string" where
  "os_path_join a p = foldl join_step a p"

subsection \<open>The world: file system, random generator, trace\<close>

text \<open>
  A file holds bytes, or the JSON array that \<open>json.dump\<close> wrote (the text of a camera's
  JSON object is the serializer's business, so the array is kept as a value).
\<close>

datatype 'j contents = Bytes string | Json_array "'j list"

text \<open>
  The file system: the regular files with their contents, the directories, and for each
  directory the iteration numbers of the checkpoints found under it (the view of a
  directory listing that the iteration scanner works on).
\<close>

record 'j filesystem =
  files :: "string \<rightharpoonup> 'j contents"
  dirs :: "string set"
  iterations :: "string \<Rightarrow> int list"

text \<open>\<open>os.path.exists\<close> is true of a file and of a directory alike.\<close>

definition os_path_exists :: "'j filesystem \<Rightarrow> string \<Rightarrow> bool" where
  "os_path_exists fs p = (files fs p \<noteq> None \<or> p \<in> dirs fs)"

text \<open>
  A Python list is an object: the getters of the scene hand out the list that the scene
  holds, not a copy of it. A list object is modelled by its identity and its items; the
  world holds the identity that the next new object gets.
\<close>

datatype 'a py_list = Py_list (list_id: nat) (items: "'a list")

datatype ('j, 'pc, 'r) event =
    Print string
  | Call_loader string
  | Write_file string "'j contents"
  | Load_ply string
  | Create_from_pcd 'pc 'r
  | Save_ply string

record ('j, 'pc, 'r, 'g) world =
  fs :: "'j filesystem"
  rng :: 'g
  trace :: "('j, 'pc, 'r) event list"
  next_id :: nat

definition emit :: "('j, 'pc, 'r) event \<Rightarrow> ('j, 'pc, 'r, 'g) world \<Rightarrow> ('j, 'pc, 'r, 'g) world" where
  "emit e w = w\<lparr>trace := trace w @ [e]\<rparr>"

definition new_list :: "'a list \<Rightarrow> ('j, 'pc, 'r, 'g) world \<Rightarrow> 'a py_list \<times> ('j, 'pc, 'r, 'g) world" where
  "new_list xs w = (Py_list (next_id w) xs, w\<lparr>next_id := Suc (next_id w)\<rparr>)"

subsection \<open>The collaborators\<close>

text \<open>
  \<open>ModelParams\<close> (arguments/__init__.py), as far as the constructor reads it.
\<close>

record ModelParams =
  model_path :: string
  source_path :: string
  images :: string
  eval :: bool
  white_background :: bool

text \<open>
  \<open>SceneInfo\<close> (scene/dataset_readers.py), the value a loader returns. The camera
  records, the point cloud and the radius are opaque to the constructor;
  \<open>nerf_normalization\<close> is a dictionary, read at the key \<open>"radius"\<close>.
\<close>

record ('ci, 'pc, 'r) SceneInfo =
  point_cloud :: 'pc
  train_cameras :: "'ci list"
  test_cameras :: "'ci list"
  nerf_normalization :: "string \<rightharpoonup> 'r"
  ply_path :: string

text \<open>
  The functions the constructor imports and that are not part of scene/__init__.py are
  parameters of the model: the two entries of \<open>sceneLoadTypeCallbacks\<close> (a loader reads
  the file system and may write to it), \<open>cameraList_from_camInfos\<close>, \<open>camera_to_JSON\<close>,
  and the generator's \<open>_randbelow\<close> that \<open>random.shuffle\<close> draws from.
\<close>

record ('ci, 'cam, 'sc, 'j, 'pc, 'r, 'g) collaborators =
  Colmap :: "string \<Rightarrow> string \<Rightarrow> bool \<Rightarrow> 'j filesystem \<Rightarrow> ('ci, 'pc, 'r) SceneInfo \<times> 'j filesystem"
  Blender :: "string \<Rightarrow> bool \<Rightarrow> bool \<Rightarrow> 'j filesystem \<Rightarrow> ('ci, 'pc, 'r) SceneInfo \<times> 'j filesystem"
  cameraList_from_camInfos :: "'ci list \<Rightarrow> 'sc \<Rightarrow> ModelParams \<Rightarrow> 'cam list"
  camera_to_JSON :: "nat \<Rightarrow> 'ci \<Rightarrow> 'j"
  randbelow :: "'g \<Rightarrow> nat \<Rightarrow> nat \<times> 'g"

text \<open>
  Modelled from the spec: \<open>searchForMaxIteration\<close> of utils/system_utils.py, which is not
  among the sources. The spec calls it "a directory scanner that returns the maximum
  iteration number found under a directory", and says that with nothing found it "yields
  an undefined/absent iteration".
\<close>

definition searchForMaxIteration :: "'j filesystem \<Rightarrow> string \<Rightarrow> int option" where
  "searchForMaxIteration fsys folder =
     (case iterations fsys folder of [] \<Rightarrow> None | n # ns \<Rightarrow> Some (fold max ns n))"

subsection \<open>random.shuffle\<close>

text \<open>
  \<^verbatim>\<open>
  for i in reversed(range(1, len(x))):
      j = randbelow(i + 1)
      x[i], x[j] = x[j], x[i]
  \<close>
  The loop of the standard library, \<open>i\<close> running from \<open>len(x) - 1\<close> down to \<open>1\<close>. Reading
  \<open>x[j]\<close> out of range raises; a generator that keeps its contract never gets there.
\<close>

fun shuffle_loop ::
  "('g \<Rightarrow> nat \<Rightarrow> nat \<times> 'g) \<Rightarrow> nat \<Rightarrow> 'a list \<Rightarrow> 'g \<Rightarrow> (py_error + 'a list) \<times> 'g" where
  "shuffle_loop rb 0 x g = (Inr x, g)"
| "shuffle_loop rb (Suc k) x g =
     (let i = Suc k;
          (j, g') = rb g (i + 1)
      in if j < length x \<and> i < length x
         then shuffle_loop rb k (x[i := x ! j, j := x ! i]) g'
         else (Inl IndexError, g'))"

definition random_shuffle ::
  "('g \<Rightarrow> nat \<Rightarrow> nat \<times> 'g) \<Rightarrow> 'a list \<Rightarrow> 'g \<Rightarrow> (py_error + 'a list) \<times> 'g" where
  "random_shuffle rb x g = shuffle_loop rb (length x - 1) x g"

subsection \<open>The Scene object\<close>

text \<open>
  The attributes of \<open>self\<close>. The attribute \<open>gaussians\<close> refers to the model object the
  caller passed in; what the scene does to it is recorded in the trace.
\<close>

record ('cam, 'sc, 'r) Scene =
  self_model_path :: string
  self_loaded_iter :: "int option"
  self_train_cameras :: "'sc \<rightharpoonup> 'cam py_list"
  self_test_cameras :: "'sc \<rightharpoonup> 'cam py_list"
  self_cameras_extent :: 'r

subsection \<open>Scene.__init__, step by step\<close>

text \<open>
  Lines 31 and 37 to 42: \<open>self.loaded_iter\<close> starts as \<open>None\<close>; a true \<open>load_iteration\<close>
  is looked up (\<open>-1\<close>: the scanner over \<open>model_path/point_cloud\<close>) or taken as it is,
  and announced.
\<close>

definition resolve_iteration ::
  "string \<Rightarrow> int option \<Rightarrow> ('j, 'pc, 'r, 'g) world \<Rightarrow> int option \<times> ('j, 'pc, 'r, 'g) world" where
  "resolve_iteration mpath load_iteration w =
     (if truthy load_iteration then
        let loaded_iter =
              (if load_iteration = Some (- 1)
               then searchForMaxIteration (fs w) (os_path_join mpath [''point_cloud''])
               else load_iteration)
        in (loaded_iter,
            emit (Print (''Loading trained model at iteration '' @ str_opt loaded_iter)) w)
      else (None, w))"

text \<open>Lines 49 to 56: the dataset type is decided by two presence tests.\<close>

definition load_scene_info ::
  "('ci, 'cam, 'sc, 'j, 'pc, 'r, 'g) collaborators \<Rightarrow> ModelParams \<Rightarrow> ('j, 'pc, 'r, 'g) world
     \<Rightarrow> (py_error + ('ci, 'pc, 'r) SceneInfo) \<times> ('j, 'pc, 'r, 'g) world" where
  "load_scene_info env args w =
     (if os_path_exists (fs w) (os_path_join (source_path args) [''sparse'']) then
        let w1 = emit (Call_loader ''Colmap'') w;
            (scene_info, fs') = Colmap env (source_path args) (images args) (eval args) (fs w1)
        in (Inr scene_info, w1\<lparr>fs := fs'\<rparr>)
      else if os_path_exists (fs w) (os_path_join (source_path args) [''transforms_train.json'']) then
        let w1 = emit (Print ''Found transforms_train.json file, assuming Blender data set!'') w;
            w2 = emit (Call_loader ''Blender'') w1;
            (scene_info, fs') =
               Blender env (source_path args) (white_background args) (eval args) (fs w2)
        in (Inr scene_info, w2\<lparr>fs := fs'\<rparr>)
      else (Inl (AssertionError ''Could not recognize scene type!''), w))"

text \<open>
  Lines 62 and 63: the source is opened for reading (it must exist), the destination
  is opened for writing (which creates or empties it), then everything read from the
  source is written to the destination. A source that is the destination itself has
  been emptied by then. The output directory is taken to exist and to be writable.
\<close>

definition copy_ply ::
  "string \<Rightarrow> string \<Rightarrow> ('j, 'pc, 'r, 'g) world \<Rightarrow> (py_error + unit) \<times> ('j, 'pc, 'r, 'g) world" where
  "copy_ply src dest w =
     (case files (fs w) src of
        None \<Rightarrow> (Inl (FileNotFoundError src), w)
      | Some c \<Rightarrow>
          let data = (if src = dest then Bytes [] else c);
              fs' = (fs w)\<lparr>files := (files (fs w))(dest \<mapsto> data)\<rparr>
          in (Inr (), emit (Write_file dest data) (w\<lparr>fs := fs'\<rparr>)))"

text \<open>Lines 64 to 73: the test cameras, then the train cameras, numbered from 0.\<close>

definition camlist_of :: "('ci, 'pc, 'r) SceneInfo \<Rightarrow> 'ci list" where
  "camlist_of scene_info =
     (if test_cameras scene_info \<noteq> [] then test_cameras scene_info else []) @
     (if train_cameras scene_info \<noteq> [] then train_cameras scene_info else [])"

definition json_cams_of :: "(nat \<Rightarrow> 'ci \<Rightarrow> 'j) \<Rightarrow> 'ci list \<Rightarrow> 'j list" where
  "json_cams_of to_json camlist = map (\<lambda>(id, cam). to_json id cam) (enumerate 0 camlist)"

text \<open>Lines 60 to 75: what a construction that loads no iteration writes.\<close>

definition dump_inputs ::
  "('ci, 'cam, 'sc, 'j, 'pc, 'r, 'g) collaborators \<Rightarrow> string \<Rightarrow> ('ci, 'pc, 'r) SceneInfo
     \<Rightarrow> ('j, 'pc, 'r, 'g) world \<Rightarrow> (py_error + unit) \<times> ('j, 'pc, 'r, 'g) world" where
  "dump_inputs env mpath scene_info w =
     (case copy_ply (ply_path scene_info) (os_path_join mpath [''input.ply'']) w of
        (Inl e, w1) \<Rightarrow> (Inl e, w1)
      | (Inr _, w1) \<Rightarrow>
          let json_cams = json_cams_of (camera_to_JSON env) (camlist_of scene_info);
              dest = os_path_join mpath [''cameras.json''];
              fs' = (fs w1)\<lparr>files := (files (fs w1))(dest \<mapsto> Json_array json_cams)\<rparr>
          in (Inr (), emit (Write_file dest (Json_array json_cams)) (w1\<lparr>fs := fs'\<rparr>)))"

text \<open>Lines 79 to 81: the train list is shuffled, then the test list, in place.\<close>

definition shuffle_cameras ::
  "('g \<Rightarrow> nat \<Rightarrow> nat \<times> 'g) \<Rightarrow> ('ci, 'pc, 'r) SceneInfo \<Rightarrow> ('j, 'pc, 'r, 'g) world
     \<Rightarrow> (py_error + ('ci, 'pc, 'r) SceneInfo) \<times> ('j, 'pc, 'r, 'g) world" where
  "shuffle_cameras rb scene_info w =
     (case random_shuffle rb (train_cameras scene_info) (rng w) of
        (Inl e, g1) \<Rightarrow> (Inl e, w\<lparr>rng := g1\<rparr>)
      | (Inr train', g1) \<Rightarrow>
          (case random_shuffle rb (test_cameras scene_info) g1 of
             (Inl e, g2) \<Rightarrow> (Inl e, w\<lparr>rng := g2\<rparr>)
           | (Inr test', g2) \<Rightarrow>
               (Inr (scene_info\<lparr>train_cameras := train', test_cameras := test'\<rparr>),
                w\<lparr>rng := g2\<rparr>)))"

text \<open>
  Lines 89 to 93: one train list and one test list per resolution scale. Each call of
  \<open>cameraList_from_camInfos\<close> returns a new list object, which the scene stores.
\<close>

fun load_cameras ::
  "('ci, 'cam, 'sc, 'j, 'pc, 'r, 'g) collaborators \<Rightarrow> ModelParams \<Rightarrow> ('ci, 'pc, 'r) SceneInfo
     \<Rightarrow> 'sc list \<Rightarrow> ('cam, 'sc, 'r) Scene \<Rightarrow> ('j, 'pc, 'r, 'g) world
     \<Rightarrow> ('cam, 'sc, 'r) Scene \<times> ('j, 'pc, 'r, 'g) world" where
  "load_cameras env args scene_info [] self w = (self, w)"
| "load_cameras env args scene_info (resolution_scale # rest) self w =
     (let w1 = emit (Print ''Loading Training Cameras'') w;
          (train_list, w2) =
             new_list (cameraList_from_camInfos env (train_cameras scene_info) resolution_scale args) w1;
          self1 = self\<lparr>self_train_cameras :=
                    (self_train_cameras self)(resolution_scale \<mapsto> train_list)\<rparr>;
          w3 = emit (Print ''Loading Test Cameras'') w2;
          (test_list, w4) =
             new_list (cameraList_from_camInfos env (test_cameras scene_info) resolution_scale args) w3;
          self2 = self1\<lparr>self_test_cameras :=
                    (self_test_cameras self1)(resolution_scale \<mapsto> test_list)\<rparr>
      in load_cameras env args scene_info rest self2 w4)"

text \<open>Lines 97 to 103: the model is restored from a checkpoint, or created.\<close>

definition init_gaussians ::
  "('ci, 'pc, 'r) SceneInfo \<Rightarrow> ('cam, 'sc, 'r) Scene \<Rightarrow> ('j, 'pc, 'r, 'g) world
     \<Rightarrow> ('j, 'pc, 'r, 'g) world" where
  "init_gaussians scene_info self w =
     (if truthy (self_loaded_iter self) then
        emit (Load_ply (os_path_join (self_model_path self)
                [''point_cloud'', ''iteration_'' @ str_opt (self_loaded_iter self),
                 ''point_cloud.ply''])) w
      else emit (Create_from_pcd (point_cloud scene_info) (self_cameras_extent self)) w)"

text \<open>The constructor: the steps above, in the order of the source.\<close>

definition Scene_init ::
  "('ci, 'cam, 'sc, 'j, 'pc, 'r, 'g) collaborators \<Rightarrow> ModelParams \<Rightarrow> int option \<Rightarrow> bool
     \<Rightarrow> 'sc list \<Rightarrow> ('j, 'pc, 'r, 'g) world
     \<Rightarrow> (py_error + ('cam, 'sc, 'r) Scene) \<times> ('j, 'pc, 'r, 'g) world" where
  "Scene_init env args load_iteration shuffle resolution_scales w =
     (let (loaded_iter, w1) = resolve_iteration (model_path args) load_iteration w in
      case load_scene_info env args w1 of
        (Inl e, w2) \<Rightarrow> (Inl e, w2)
      | (Inr scene_info, w2) \<Rightarrow>
          (case (if \<not> truthy loaded_iter
                 then dump_inputs env (model_path args) scene_info w2
                 else (Inr (), w2)) of
             (Inl e, w3) \<Rightarrow> (Inl e, w3)
           | (Inr _, w3) \<Rightarrow>
               (case (if shuffle then shuffle_cameras (randbelow env) scene_info w3
                      else (Inr scene_info, w3)) of
                  (Inl e, w4) \<Rightarrow> (Inl e, w4)
                | (Inr scene_info', w4) \<Rightarrow>
                    (case nerf_normalization scene_info' ''radius'' of
                       None \<Rightarrow> (Inl KeyError, w4)
                     | Some radius \<Rightarrow>
                         let self = \<lparr>self_model_path = model_path args,
                                     self_loaded_iter = loaded_iter,
                                     self_train_cameras = Map.empty,
                                     self_test_cameras = Map.empty,
                                     self_cameras_extent = radius\<rparr>;
                             (self', w5) =
                                load_cameras env args scene_info' resolution_scales self w4
                         in (Inr self', init_gaussians scene_info' self' w5)))))"

subsection \<open>save, getTrainCameras, getTestCameras\<close>

text \<open>Lines 105 to 107.\<close>

definition save ::
  "('cam, 'sc, 'r) Scene \<Rightarrow> int \<Rightarrow> ('j, 'pc, 'r, 'g) world \<Rightarrow> ('j, 'pc, 'r, 'g) world" where
  "save self iteration w =
     (let point_cloud_path =
            os_path_join (self_model_path self) [''point_cloud/iteration_'' @ str_int iteration]
      in emit (Save_ply (os_path_join point_cloud_path [''point_cloud.ply''])) w)"

text \<open>
  Lines 109 to 113: a dictionary lookup, which raises on a key that is not there and
  returns the list object that is stored otherwise. The getters have no world to take a
  new identity from: they cannot return a copy.
\<close>

definition getTrainCameras :: "('cam, 'sc, 'r) Scene \<Rightarrow> 'sc \<Rightarrow> py_error + 'cam py_list" where
  "getTrainCameras self scale =
     (case self_train_cameras self scale of None \<Rightarrow> Inl KeyError | Some cams \<Rightarrow> Inr cams)"

definition getTestCameras :: "('cam, 'sc, 'r) Scene \<Rightarrow> 'sc \<Rightarrow> py_error + 'cam py_list" where
  "getTestCameras self scale =
     (case self_test_cameras self scale of None \<Rightarrow> Inl KeyError | Some cams \<Rightarrow> Inr cams)"

section \<open>Observing a run\<close>

text \<open>
  The events a run adds to the trace, and the readings of a trace that the properties
  below are stated with: the files written, the calls of \<open>load_ply\<close> and of
  \<open>create_from_pcd\<close> on the model object, the loaders called.
\<close>

definition new_events :: "('j, 'pc, 'r, 'g) world \<Rightarrow> ('j, 'pc, 'r, 'g) world \<Rightarrow> ('j, 'pc, 'r) event list" where
  "new_events w w' = drop (length (trace w)) (trace w')"

fun file_writes :: "('j, 'pc, 'r) event list \<Rightarrow> (string \<times> 'j contents) list" where
  "file_writes [] = []"
| "file_writes (Write_file p c # evs) = (p, c) # file_writes evs"
| "file_writes (_ # evs) = file_writes evs"

fun load_ply_calls :: "('j, 'pc, 'r) event list \<Rightarrow> string list" where
  "load_ply_calls [] = []"
| "load_ply_calls (Load_ply p # evs) = p # load_ply_calls evs"
| "load_ply_calls (_ # evs) = load_ply_calls evs"

fun create_from_pcd_calls :: "('j, 'pc, 'r) event list \<Rightarrow> ('pc \<times> 'r) list" where
  "create_from_pcd_calls [] = []"
| "create_from_pcd_calls (Create_from_pcd pc r # evs) = (pc, r) # create_from_pcd_calls evs"
| "create_from_pcd_calls (_ # evs) = create_from_pcd_calls evs"

fun loader_calls :: "('j, 'pc, 'r) event list \<Rightarrow> string list" where
  "loader_calls [] = []"
| "loader_calls (Call_loader k # evs) = k # loader_calls evs"
| "loader_calls (_ # evs) = loader_calls evs"

text \<open>What a trace writes to one path, in order.\<close>

definition writes_to :: "string \<Rightarrow> ('j, 'pc, 'r) event list \<Rightarrow> 'j contents list" where
  "writes_to path evs = map snd (filter (\<lambda>(p, c). p = path) (file_writes evs))"

text \<open>A construction completes when it returns a scene rather than raising.\<close>

definition completes :: "(py_error + 'a) \<times> 'w \<Rightarrow> bool" where
  "completes r = (case fst r of Inl _ \<Rightarrow> False | Inr _ \<Rightarrow> True)"

text \<open>The contract of the generator: \<open>_randbelow(n)\<close> lies below \<open>n\<close>.\<close>

definition randbelow_ok :: "('g \<Rightarrow> nat \<Rightarrow> nat \<times> 'g) \<Rightarrow> bool" where
  "randbelow_ok rb = (\<forall>g n. 0 < n \<longrightarrow> fst (rb g n) < n)"

text \<open>
  A generator that replays a list of draws, each reduced into the range asked for. With
  it the draws of a run can be chosen, which is how "any permutation can come out"
  is stated. \<open>replaying\<close> puts it in the place of the generator of an environment,
  \<open>with_draws\<close> gives a world the draws to replay.
\<close>

definition replay :: "nat list \<Rightarrow> nat \<Rightarrow> nat \<times> nat list" where
  "replay draws n = (case draws of [] \<Rightarrow> (0, []) | j # rest \<Rightarrow> (j mod n, rest))"

definition replaying ::
  "('ci, 'cam, 'sc, 'j, 'pc, 'r, 'g) collaborators
     \<Rightarrow> ('ci, 'cam, 'sc, 'j, 'pc, 'r, nat list) collaborators" where
  "replaying env =
     \<lparr>Colmap = Colmap env, Blender = Blender env,
      cameraList_from_camInfos = cameraList_from_camInfos env,
      camera_to_JSON = camera_to_JSON env, randbelow = replay\<rparr>"

definition with_draws ::
  "('j, 'pc, 'r, 'g) world \<Rightarrow> nat list \<Rightarrow> ('j, 'pc, 'r, nat list) world" where
  "with_draws w draws = \<lparr>fs = fs w, rng = draws, trace = trace w, next_id = next_id w\<rparr>"

text \<open>
  The pieces of the trace of a construction, in the order they are emitted: the
  announcement of the iteration, the loader, the two files, two lines per resolution
  scale, and the call on the model object.
\<close>

definition resolve_events :: "int option \<Rightarrow> int option \<Rightarrow> ('j, 'pc, 'r) event list" where
  "resolve_events load_iteration loaded =
     (if truthy load_iteration
      then [Print (''Loading trained model at iteration '' @ str_opt loaded)] else [])"

definition loader_events :: "ModelParams \<Rightarrow> 'j filesystem \<Rightarrow> ('j, 'pc, 'r) event list" where
  "loader_events args fsys =
     (if os_path_exists fsys (os_path_join (source_path args) [''sparse''])
      then [Call_loader ''Colmap'']
      else if os_path_exists fsys (os_path_join (source_path args) [''transforms_train.json''])
      then [Print ''Found transforms_train.json file, assuming Blender data set!'',
            Call_loader ''Blender'']
      else [])"

definition dump_writes ::
  "('ci, 'cam, 'sc, 'j, 'pc, 'r, 'g) collaborators \<Rightarrow> string \<Rightarrow> ('ci, 'pc, 'r) SceneInfo
     \<Rightarrow> 'j contents \<Rightarrow> (string \<times> 'j contents) list" where
  "dump_writes env mpath si c =
     [(os_path_join mpath [''input.ply''],
       if ply_path si = os_path_join mpath [''input.ply''] then Bytes [] else c),
      (os_path_join mpath [''cameras.json''],
       Json_array (json_cams_of (camera_to_JSON env) (camlist_of si)))]"

definition camera_prints :: "'sc list \<Rightarrow> ('j, 'pc, 'r) event list" where
  "camera_prints scales =
     concat (map (\<lambda>_. [Print ''Loading Training Cameras'', Print ''Loading Test Cameras'']) scales)"

definition final_event ::
  "ModelParams \<Rightarrow> int option \<Rightarrow> ('ci, 'pc, 'r) SceneInfo \<Rightarrow> 'r \<Rightarrow> ('j, 'pc, 'r) event" where
  "final_event args loaded si radius =
     (if truthy loaded
      then Load_ply (os_path_join (model_path args)
             [''point_cloud'', ''iteration_'' @ str_opt loaded, ''point_cloud.ply''])
      else Create_from_pcd (point_cloud si) radius)"

text \<open>
  The scene a construction returns, from the values it has computed on the way. The loop
  over the scales makes two list objects per scale, so the lists that stay in the
  mappings are those of the last occurrence of each scale.
\<close>

fun last_idx :: "'a list \<Rightarrow> 'a \<Rightarrow> nat" where
  "last_idx [] s = 0"
| "last_idx (a # S) s = (if s \<in> set S then Suc (last_idx S s) else 0)"

definition built_scene ::
  "('ci, 'cam, 'sc, 'j, 'pc, 'r, 'g) collaborators \<Rightarrow> ModelParams \<Rightarrow> int option
     \<Rightarrow> ('ci, 'pc, 'r) SceneInfo \<Rightarrow> 'sc list \<Rightarrow> 'r \<Rightarrow> nat \<Rightarrow> ('cam, 'sc, 'r) Scene" where
  "built_scene env args loaded si S radius n =
     \<lparr>self_model_path = model_path args,
      self_loaded_iter = loaded,
      self_train_cameras =
        (\<lambda>s. if s \<in> set S
             then Some (Py_list (n + 2 * last_idx S s)
                         (cameraList_from_camInfos env (train_cameras si) s args))
             else None),
      self_test_cameras =
        (\<lambda>s. if s \<in> set S
             then Some (Py_list (Suc (n + 2 * last_idx S s))
                         (cameraList_from_camInfos env (test_cameras si) s args))
             else None),
      self_cameras_extent = radius\<rparr>"

text \<open>
  What a run writes, whatever its outcome: nothing when the loader was not reached, when
  an iteration is loaded or when the point-cloud source is missing, the two files
  otherwise.
\<close>

definition expected_writes ::
  "('ci, 'cam, 'sc, 'j, 'pc, 'r, 'g) collaborators \<Rightarrow> ModelParams \<Rightarrow> int option
     \<Rightarrow> ('j, 'pc, 'r, 'g) world \<Rightarrow> (string \<times> 'j contents) list" where
  "expected_writes env args li w =
     (case fst (load_scene_info env args w) of
        Inl e \<Rightarrow> []
      | Inr si \<Rightarrow>
          if truthy (fst (resolve_iteration (model_path args) li w)) then []
          else (case files (fs (snd (load_scene_info env args w))) (ply_path si) of
                  None \<Rightarrow> []
                | Some c \<Rightarrow> dump_writes env (model_path args) si c))"

section \<open>A concrete scene\<close>

text \<open>
  A small environment to run the constructor in: cameras are numbers, a camera object is
  the camera with its scale, a camera's JSON object is its id with the camera, and the
  generator counts its draws.
\<close>

definition demo_info :: "string \<Rightarrow> (nat, nat, nat) SceneInfo" where
  "demo_info p = \<lparr>point_cloud = 7, train_cameras = [1, 2, 3], test_cameras = [4, 5],
     nerf_normalization = [''radius'' \<mapsto> 9], ply_path = p\<rparr>"

definition demo_env :: "(nat, nat \<times> nat, nat, nat \<times> nat, nat, nat, nat) collaborators" where
  "demo_env = \<lparr>Colmap = (\<lambda>src imgs ev fsys. (demo_info (src @ ''/sparse/0/points3D.ply''), fsys)),
     Blender = (\<lambda>src wb ev fsys. (demo_info (src @ ''/points3d.ply''), fsys)),
     cameraList_from_camInfos = (\<lambda>cams scale args. map (\<lambda>c. (c, scale)) cams),
     camera_to_JSON = (\<lambda>id cam. (id, cam)),
     randbelow = (\<lambda>g n. (g mod n, Suc g))\<rparr>"

definition demo_args :: ModelParams where
  "demo_args = \<lparr>model_path = ''out'', source_path = ''data'', images = ''images'',
     eval = True, white_background = False\<rparr>"

definition demo_world :: "(nat \<times> nat, nat, nat, nat) world" where
  "demo_world = \<lparr>fs = \<lparr>files = [''data/sparse/0/points3D.ply'' \<mapsto> Bytes ''ply''],
       dirs = {''data/sparse''},
       iterations = (\<lambda>d. if d = ''out/point_cloud'' then [7, 30] else [])\<rparr>,
     rng = 0, trace = [], next_id = 0\<rparr>"

definition blender_world :: "(nat \<times> nat, nat, nat, nat) world" where
  "blender_world = \<lparr>fs = \<lparr>files = [''data/points3d.ply'' \<mapsto> Bytes ''ply'',
         ''data/transforms_train.json'' \<mapsto> Bytes ''{}''],
       dirs = {},
       iterations = (\<lambda>d. [])\<rparr>,
     rng = 0, trace = [], next_id = 0\<rparr>"


definition empty_world :: "(nat \<times> nat, nat, nat, nat) world" where
  "empty_world = \<lparr>fs = \<lparr>files = Map.empty, dirs = {}, iterations = (\<lambda>d. [])\<rparr>,
     rng = 0, trace = [], next_id = 0\<rparr>"

text \<open>
  The scene of a fresh construction, and the world after that construction and a
  \<open>save\<close> of the scene at an iteration.
\<close>

definition demo_scene :: "(nat \<times> nat, nat, nat) Scene" where
  "demo_scene = projr (fst (Scene_init demo_env demo_args None False [1, 2] demo_world))"

definition saved_world :: "int \<Rightarrow> (nat \<times> nat, nat, nat, nat) world" where
  "saved_world N =
     save demo_scene N (snd (Scene_init demo_env demo_args None False [1, 2] demo_world))"

section \<open>Facts about the steps\<close>

lemma completesD: "completes r \<Longrightarrow> r = (Inr (projr (fst r)), snd r)"
  by (cases r; cases "fst r") (simp_all add: completes_def)

subsection \<open>The camera loop and the shuffle\<close>

lemma last_idx_inj:
  "s \<in> set S \<Longrightarrow> t \<in> set S \<Longrightarrow> last_idx S s = last_idx S t \<Longrightarrow> s = t"
  by (induction S) (auto split: if_splits)

lemma last_idx_less: "s \<in> set S \<Longrightarrow> last_idx S s < length S"
  by (induction S) auto

lemma load_cameras_eq:
  "load_cameras env args si S self w =
     (self\<lparr>self_train_cameras :=
              (\<lambda>s. if s \<in> set S
                   then Some (Py_list (next_id w + 2 * last_idx S s)
                               (cameraList_from_camInfos env (train_cameras si) s args))
                   else self_train_cameras self s),
            self_test_cameras :=
              (\<lambda>s. if s \<in> set S
                   then Some (Py_list (Suc (next_id w + 2 * last_idx S s))
                               (cameraList_from_camInfos env (test_cameras si) s args))
                   else self_test_cameras self s)\<rparr>,
      w\<lparr>trace := trace w @ camera_prints S, next_id := next_id w + 2 * length S\<rparr>)"
proof (induction S arbitrary: self w)
  case Nil
  show ?case by (simp add: camera_prints_def)
next
  case (Cons a S)
  have t1: "(\<lambda>s. if s \<in> set S
         then Some (Py_list (Suc (Suc (next_id w + 2 * last_idx S s)))
                     (cameraList_from_camInfos env (train_cameras si) s args))
         else if s = a
         then Some (Py_list (next_id w) (cameraList_from_camInfos env (train_cameras si) a args))
         else self_train_cameras self s)
      = (\<lambda>s. if s \<in> set (a # S)
         then Some (Py_list (next_id w + 2 * last_idx (a # S) s)
                     (cameraList_from_camInfos env (train_cameras si) s args))
         else self_train_cameras self s)"
    by (rule ext) auto
  have t2: "(\<lambda>s. if s \<in> set S
         then Some (Py_list (Suc (Suc (Suc (next_id w + 2 * last_idx S s))))
                     (cameraList_from_camInfos env (test_cameras si) s args))
         else if s = a
         then Some (Py_list (Suc (next_id w)) (cameraList_from_camInfos env (test_cameras si) a args))
         else self_test_cameras self s)
      = (\<lambda>s. if s \<in> set (a # S)
         then Some (Py_list (Suc (next_id w + 2 * last_idx (a # S) s))
                     (cameraList_from_camInfos env (test_cameras si) s args))
         else self_test_cameras self s)"
    by (rule ext) auto
  show ?case
    apply (simp add: Cons.IH Let_def emit_def new_list_def camera_prints_def
        del: set_simps last_idx.simps cong: if_cong)
    apply (simp only: t1 t2)
    done
qed

lemma shuffle_loop_mset:
  "shuffle_loop rb k x g = (Inr y, g') \<Longrightarrow> mset y = mset x"
proof (induction k arbitrary: x g)
  case 0
  then show ?case by simp
next
  case (Suc k)
  then show ?case
    by (auto simp: Let_def mset_swap split: prod.splits if_splits)
qed

lemma random_shuffle_mset:
  "random_shuffle rb x g = (Inr y, g') \<Longrightarrow> mset y = mset x"
  unfolding random_shuffle_def by (rule shuffle_loop_mset)

lemma shuffle_loop_ok:
  "randbelow_ok rb \<Longrightarrow> k < length x \<Longrightarrow> \<exists>y g'. shuffle_loop rb k x g = (Inr y, g')"
proof (induction k arbitrary: x g)
  case 0
  then show ?case by simp
next
  case (Suc k)
  obtain j g1 where r: "rb g (Suc k + 1) = (j, g1)" by (cases "rb g (Suc k + 1)")
  from Suc.prems(1) have "fst (rb g (Suc k + 1)) < Suc k + 1"
    unfolding randbelow_ok_def by simp
  with r have j: "j < Suc k + 1" by simp
  with Suc.prems(2) have jl: "j < length x" by simp
  have "k < length (x[Suc k := x ! j, j := x ! Suc k])" using Suc.prems(2) by simp
  from Suc.IH[OF Suc.prems(1) this]
  show ?case using r jl Suc.prems(2) by (simp add: Let_def)
qed

lemma random_shuffle_ok:
  "randbelow_ok rb \<Longrightarrow> \<exists>y g'. random_shuffle rb x g = (Inr y, g')"
proof (cases x)
  case Nil
  then show ?thesis by (simp add: random_shuffle_def)
next
  case (Cons a xs)
  assume "randbelow_ok rb"
  then show ?thesis unfolding random_shuffle_def
    by (rule shuffle_loop_ok) (simp add: Cons)
qed

subsection \<open>Readings of a trace\<close>

lemma file_writes_append: "file_writes (a @ b) = file_writes a @ file_writes b"
  by (induction a rule: file_writes.induct) simp_all

lemma load_ply_calls_append: "load_ply_calls (a @ b) = load_ply_calls a @ load_ply_calls b"
  by (induction a rule: load_ply_calls.induct) simp_all

lemma create_from_pcd_calls_append:
  "create_from_pcd_calls (a @ b) = create_from_pcd_calls a @ create_from_pcd_calls b"
  by (induction a rule: create_from_pcd_calls.induct) simp_all

lemma loader_calls_append: "loader_calls (a @ b) = loader_calls a @ loader_calls b"
  by (induction a rule: loader_calls.induct) simp_all

lemmas calls_append = file_writes_append load_ply_calls_append create_from_pcd_calls_append
  loader_calls_append

lemma camera_prints_quiet:
  "file_writes (camera_prints S) = []" "load_ply_calls (camera_prints S) = []"
  "create_from_pcd_calls (camera_prints S) = []" "loader_calls (camera_prints S) = []"
  by (induction S) (simp_all add: camera_prints_def)

lemma resolve_events_quiet:
  "file_writes (resolve_events li l) = []" "load_ply_calls (resolve_events li l) = []"
  "create_from_pcd_calls (resolve_events li l) = []" "loader_calls (resolve_events li l) = []"
  by (simp_all add: resolve_events_def)

subsection \<open>The steps of the constructor\<close>

lemma resolve_iteration_world:
  "snd (resolve_iteration mp li w) =
     w\<lparr>trace := trace w @ resolve_events li (fst (resolve_iteration mp li w))\<rparr>"
  by (simp add: resolve_iteration_def resolve_events_def emit_def Let_def)

lemma load_scene_info_world:
  "trace (snd (load_scene_info env args w)) = trace w @ loader_events args (fs w)"
  "rng (snd (load_scene_info env args w)) = rng w"
  "next_id (snd (load_scene_info env args w)) = next_id w"
  by (simp_all add: load_scene_info_def loader_events_def emit_def Let_def split_def)

lemma load_scene_info_fs:
  "fs w1 = fs w \<Longrightarrow> fst (load_scene_info env args w1) = fst (load_scene_info env args w)"
  "fs w1 = fs w \<Longrightarrow> fs (snd (load_scene_info env args w1)) = fs (snd (load_scene_info env args w))"
  by (simp_all add: load_scene_info_def emit_def Let_def split_def)

lemma dump_inputs_Inl:
  "dump_inputs env mp si w = (Inl e, w') \<Longrightarrow> w' = w \<and> files (fs w) (ply_path si) = None"
  by (auto simp: dump_inputs_def copy_ply_def Let_def split: option.splits)

lemma dump_inputs_Inr:
  "dump_inputs env mp si w = (Inr u, w') \<Longrightarrow>
     \<exists>c. files (fs w) (ply_path si) = Some c
       \<and> trace w' = trace w @ map (\<lambda>(p, c). Write_file p c) (dump_writes env mp si c)
       \<and> rng w' = rng w \<and> next_id w' = next_id w"
  by (auto simp: dump_inputs_def copy_ply_def dump_writes_def emit_def Let_def split: option.splits)

lemma shuffle_cameras_world:
  "shuffle_cameras rb si w = (r, w') \<Longrightarrow>
     trace w' = trace w \<and> fs w' = fs w \<and> next_id w' = next_id w"
  by (auto simp: shuffle_cameras_def split: prod.splits sum.splits)

lemma shuffle_cameras_Inr:
  "shuffle_cameras rb si w = (Inr si', w') \<Longrightarrow>
     \<exists>g1. random_shuffle rb (train_cameras si) (rng w) = (Inr (train_cameras si'), g1)
        \<and> random_shuffle rb (test_cameras si) g1 = (Inr (test_cameras si'), rng w')
        \<and> point_cloud si' = point_cloud si \<and> nerf_normalization si' = nerf_normalization si
        \<and> ply_path si' = ply_path si"
  by (auto simp: shuffle_cameras_def split: prod.splits sum.splits)

subsection \<open>The outcomes of a construction\<close>

text \<open>
  A construction ends in one of five ways: the dataset type is not recognised, the
  point-cloud source cannot be read, a shuffle fails, the radius is missing, or the
  scene is returned.
\<close>

lemma Scene_init_cases [consumes 1, case_names no_scene no_dump no_shuffle no_radius complete]:
  assumes r: "resolve_iteration (model_path args) li w = (loaded, w1)"
  obtains
    e w2 where "load_scene_info env args w1 = (Inl e, w2)"
      "Scene_init env args li sh S w = (Inl e, w2)"
  | si w2 e w3 where "load_scene_info env args w1 = (Inr si, w2)" "\<not> truthy loaded"
      "dump_inputs env (model_path args) si w2 = (Inl e, w3)"
      "Scene_init env args li sh S w = (Inl e, w3)"
  | si w2 u w3 e w4 where "load_scene_info env args w1 = (Inr si, w2)"
      "(if \<not> truthy loaded then dump_inputs env (model_path args) si w2 else (Inr (), w2)) = (Inr u, w3)"
      "sh" "shuffle_cameras (randbelow env) si w3 = (Inl e, w4)"
      "Scene_init env args li sh S w = (Inl e, w4)"
  | si w2 u w3 si' w4 where "load_scene_info env args w1 = (Inr si, w2)"
      "(if \<not> truthy loaded then dump_inputs env (model_path args) si w2 else (Inr (), w2)) = (Inr u, w3)"
      "(if sh then shuffle_cameras (randbelow env) si w3 else (Inr si, w3)) = (Inr si', w4)"
      "nerf_normalization si' ''radius'' = None"
      "Scene_init env args li sh S w = (Inl KeyError, w4)"
  | si w2 u w3 si' w4 radius where "load_scene_info env args w1 = (Inr si, w2)"
      "(if \<not> truthy loaded then dump_inputs env (model_path args) si w2 else (Inr (), w2)) = (Inr u, w3)"
      "(if sh then shuffle_cameras (randbelow env) si w3 else (Inr si, w3)) = (Inr si', w4)"
      "nerf_normalization si' ''radius'' = Some radius"
      "Scene_init env args li sh S w =
         (Inr (built_scene env args loaded si' S radius (next_id w4)),
          init_gaussians si' (built_scene env args loaded si' S radius (next_id w4))
            (w4\<lparr>trace := trace w4 @ camera_prints S,
                next_id := next_id w4 + 2 * length S\<rparr>))"
proof -
  obtain r2 w2 where l: "load_scene_info env args w1 = (r2, w2)"
    by (cases "load_scene_info env args w1")
  show thesis
  proof (cases r2)
    case (Inl e)
    with r l have "Scene_init env args li sh S w = (Inl e, w2)"
      by (simp add: Scene_init_def)
    with l Inl show thesis using that(1) by blast
  next
    case (Inr si)
    note si = l [unfolded Inr]
    obtain r3 w3 where d: "(if \<not> truthy loaded then dump_inputs env (model_path args) si w2
        else (Inr (), w2)) = (r3, w3)"
      by (cases "if \<not> truthy loaded then dump_inputs env (model_path args) si w2 else (Inr (), w2)")
    show thesis
    proof (cases r3)
      case (Inl e)
      with d have nt: "\<not> truthy loaded" and de: "dump_inputs env (model_path args) si w2 = (Inl e, w3)"
        by (auto split: if_splits)
      from r si d Inl have "Scene_init env args li sh S w = (Inl e, w3)"
        by (simp add: Scene_init_def)
      with si nt de show thesis using that(2) by blast
    next
      case (Inr u)
      note du = d [unfolded Inr]
      obtain r4 w4 where s: "(if sh then shuffle_cameras (randbelow env) si w3 else (Inr si, w3)) = (r4, w4)"
        by (cases "if sh then shuffle_cameras (randbelow env) si w3 else (Inr si, w3)")
      show thesis
      proof (cases r4)
        case (Inl e)
        with s have sh: "sh" and se: "shuffle_cameras (randbelow env) si w3 = (Inl e, w4)"
          by (auto split: if_splits)
        from r si du s Inl have "Scene_init env args li sh S w = (Inl e, w4)"
          by (simp add: Scene_init_def)
        with si du sh se show thesis using that(3) by blast
      next
        case (Inr si')
        note sh = s [unfolded Inr]
        show thesis
        proof (cases "nerf_normalization si' ''radius''")
          case None
          with r si du sh have "Scene_init env args li sh S w = (Inl KeyError, w4)"
            by (simp add: Scene_init_def)
          with si du sh None show thesis using that(4) by blast
        next
          case (Some radius)
          with r si du sh have "Scene_init env args li sh S w =
             (Inr (built_scene env args loaded si' S radius (next_id w4)),
              init_gaussians si' (built_scene env args loaded si' S radius (next_id w4))
                (w4\<lparr>trace := trace w4 @ camera_prints S,
                    next_id := next_id w4 + 2 * length S\<rparr>))"
            by (simp add: Scene_init_def load_cameras_eq built_scene_def Let_def cong: if_cong)
          with si du sh Some show thesis using that(5) by blast
        qed
      qed
    qed
  qed
qed

subsection \<open>A construction that completes\<close>

lemma file_writes_map: "file_writes (map (\<lambda>(p, c). Write_file p c) xs) = xs"
  by (induction xs) auto

lemma other_calls_map:
  "load_ply_calls (map (\<lambda>(p, c). Write_file p c) xs) = []"
  "create_from_pcd_calls (map (\<lambda>(p, c). Write_file p c) xs) = []"
  "loader_calls (map (\<lambda>(p, c). Write_file p c) xs) = []"
  by (induction xs) auto

lemma resolve_iteration_fs:
  "resolve_iteration mp li w = (loaded, w1) \<Longrightarrow>
     fs w1 = fs w \<and> rng w1 = rng w \<and> trace w1 = trace w @ resolve_events li loaded
     \<and> next_id w1 = next_id w"
  using resolve_iteration_world [of mp li w] by (cases w1) auto

lemma load_scene_info_step:
  assumes "load_scene_info env args w1 = (r, w2)" "fs w1 = fs w"
  shows "fst (load_scene_info env args w) = r" "fs (snd (load_scene_info env args w)) = fs w2"
    "rng w2 = rng w1" "trace w2 = trace w1 @ loader_events args (fs w)"
    "next_id w2 = next_id w1"
  using assms load_scene_info_fs [of w1 w env args] load_scene_info_world [of env args w1]
  by auto

lemma dump_step:
  assumes "(if \<not> truthy loaded then dump_inputs env mp si w2 else (Inr (), w2)) = (Inr u, w3)"
  shows "rng w3 = rng w2"
    "\<exists>dump. trace w3 = trace w2 @ map (\<lambda>(p, c). Write_file p c) dump
       \<and> (if truthy loaded then dump = []
           else \<exists>c. files (fs w2) (ply_path si) = Some c \<and> dump = dump_writes env mp si c)"
    "next_id w3 = next_id w2"
proof -
  show "rng w3 = rng w2" using assms dump_inputs_Inr [of env mp si w2 u w3]
    by (auto split: if_splits)
  show "next_id w3 = next_id w2" using assms dump_inputs_Inr [of env mp si w2 u w3]
    by (auto split: if_splits)
  show "\<exists>dump. trace w3 = trace w2 @ map (\<lambda>(p, c). Write_file p c) dump
       \<and> (if truthy loaded then dump = []
           else \<exists>c. files (fs w2) (ply_path si) = Some c \<and> dump = dump_writes env mp si c)"
  proof (cases "truthy loaded")
    case True
    with assms show ?thesis by auto
  next
    case False
    with assms have "dump_inputs env mp si w2 = (Inr u, w3)" by simp
    from dump_inputs_Inr [OF this] False show ?thesis by auto
  qed
qed

lemma shuffle_step:
  assumes "(if sh then shuffle_cameras rb si w3 else (Inr si, w3)) = (Inr si', w4)"
  shows "trace w4 = trace w3" "fs w4 = fs w3"
    "point_cloud si' = point_cloud si" "nerf_normalization si' = nerf_normalization si"
    "ply_path si' = ply_path si"
    "if sh then \<exists>g1. random_shuffle rb (train_cameras si) (rng w3) = (Inr (train_cameras si'), g1)
                  \<and> random_shuffle rb (test_cameras si) g1 = (Inr (test_cameras si'), rng w4)
     else si' = si \<and> rng w4 = rng w3"
    "next_id w4 = next_id w3"
  using assms shuffle_cameras_world [of rb si w3 "Inr si'" w4] shuffle_cameras_Inr [of rb si w3 si' w4]
  by (auto split: if_splits)

lemma Scene_init_complete:
  assumes run: "Scene_init env args li sh S w = (Inr self, w')"
  shows "\<exists>si si' radius dump.
      fst (load_scene_info env args w) = Inr si
    \<and> (if sh then \<exists>g1. random_shuffle (randbelow env) (train_cameras si) (rng w) = (Inr (train_cameras si'), g1)
                  \<and> random_shuffle (randbelow env) (test_cameras si) g1 = (Inr (test_cameras si'), rng w')
        else si' = si \<and> rng w' = rng w)
    \<and> point_cloud si' = point_cloud si
    \<and> nerf_normalization si ''radius'' = Some radius
    \<and> self = built_scene env args (fst (resolve_iteration (model_path args) li w)) si' S radius
               (next_id w)
    \<and> (if truthy (fst (resolve_iteration (model_path args) li w)) then dump = []
        else \<exists>c. files (fs (snd (load_scene_info env args w))) (ply_path si) = Some c
               \<and> dump = dump_writes env (model_path args) si c)
    \<and> trace w' = trace w @ resolve_events li (fst (resolve_iteration (model_path args) li w))
         @ loader_events args (fs w) @ map (\<lambda>(p, c). Write_file p c) dump @ camera_prints S
         @ [final_event args (fst (resolve_iteration (model_path args) li w)) si radius]
    \<and> next_id w' = next_id w + 2 * length S"
proof -
  obtain loaded w1 where r: "resolve_iteration (model_path args) li w = (loaded, w1)"
    by (cases "resolve_iteration (model_path args) li w")
  note r1 = resolve_iteration_fs [OF r]
  from r have le: "fst (resolve_iteration (model_path args) li w) = loaded" by simp
  from r show ?thesis
  proof (cases rule: Scene_init_cases [where env = env and sh = sh and S = S])
    case (no_scene e w2)
    with run show ?thesis by simp
  next
    case (no_dump si w2 e w3)
    with run show ?thesis by simp
  next
    case (no_shuffle si w2 u w3 e w4)
    with run show ?thesis by simp
  next
    case (no_radius si w2 u w3 si' w4)
    with run show ?thesis by simp
  next
    case (complete si w2 u w3 si' w4 radius)
    from r1 have f1: "fs w1 = fs w" by simp
    note l = load_scene_info_step [OF complete(1) f1]
    note d = dump_step [OF complete(2)]
    note s = shuffle_step [OF complete(3)]
    from d(2) obtain dump where dump: "trace w3 = trace w2 @ map (\<lambda>(p, c). Write_file p c) dump"
      "if truthy loaded then dump = []
       else \<exists>c. files (fs w2) (ply_path si) = Some c \<and> dump = dump_writes env (model_path args) si c"
      by blast
    have n4: "next_id w4 = next_id w" using s(7) d(3) l(5) r1 by simp
    from run complete(5) have self: "self = built_scene env args loaded si' S radius (next_id w)"
      and w': "w' = init_gaussians si' (built_scene env args loaded si' S radius (next_id w))
            (w4\<lparr>trace := trace w4 @ camera_prints S,
                next_id := next_id w4 + 2 * length S\<rparr>)"
      unfolding n4 by auto
    have rng3: "rng w3 = rng w" using d(1) l(3) r1 by simp
    have rngw': "rng w' = rng w4" unfolding w' by (simp add: init_gaussians_def emit_def)
    have tr: "trace w' = trace w4 @ camera_prints S @ [final_event args loaded si radius]"
      unfolding w'
      by (simp add: init_gaussians_def emit_def final_event_def built_scene_def s(3))
    have "fst (load_scene_info env args w) = Inr si" using l(1) .
    moreover have "if sh then \<exists>g1. random_shuffle (randbelow env) (train_cameras si) (rng w) = (Inr (train_cameras si'), g1)
                  \<and> random_shuffle (randbelow env) (test_cameras si) g1 = (Inr (test_cameras si'), rng w')
        else si' = si \<and> rng w' = rng w"
      using s(6) rng3 rngw' by (auto split: if_splits)
    moreover have "point_cloud si' = point_cloud si" using s(3) .
    moreover have "nerf_normalization si ''radius'' = Some radius"
      using complete(4) s(4) by simp
    moreover have "self = built_scene env args (fst (resolve_iteration (model_path args) li w)) si' S radius
        (next_id w)"
      using self le by simp
    moreover have "if truthy (fst (resolve_iteration (model_path args) li w)) then dump = []
        else \<exists>c. files (fs (snd (load_scene_info env args w))) (ply_path si) = Some c
               \<and> dump = dump_writes env (model_path args) si c"
      unfolding le l(2) using dump(2) .
    moreover have "trace w' = trace w @ resolve_events li (fst (resolve_iteration (model_path args) li w))
         @ loader_events args (fs w) @ map (\<lambda>(p, c). Write_file p c) dump @ camera_prints S
         @ [final_event args (fst (resolve_iteration (model_path args) li w)) si radius]"
      unfolding le using tr s(1) dump(1) l(4) r1 by simp
    moreover have "next_id w' = next_id w + 2 * length S"
      unfolding w' using n4 by (simp add: init_gaussians_def emit_def)
    ultimately show ?thesis by blast
  qed
qed

subsection \<open>Every construction\<close>

lemma loader_events_quiet:
  "file_writes (loader_events args fsys) = []" "load_ply_calls (loader_events args fsys) = []"
  "create_from_pcd_calls (loader_events args fsys) = []"
  by (simp_all add: loader_events_def)

lemma final_event_quiet:
  "file_writes [final_event args loaded si radius] = []"
  "loader_calls [final_event args loaded si radius] = []"
  by (simp_all add: final_event_def)

text \<open>The trace of a run, whatever its outcome.\<close>
lemma Scene_init_any:
  "\<exists>rest. trace (snd (Scene_init env args li sh S w)) =
       trace w @ resolve_events li (fst (resolve_iteration (model_path args) li w))
         @ loader_events args (fs w) @ rest
     \<and> loader_calls rest = []
     \<and> file_writes rest = expected_writes env args li w
     \<and> (\<not> completes (Scene_init env args li sh S w) \<longrightarrow>
          load_ply_calls rest = [] \<and> create_from_pcd_calls rest = [])"
proof -
  obtain loaded w1 where r: "resolve_iteration (model_path args) li w = (loaded, w1)"
    by (cases "resolve_iteration (model_path args) li w")
  note r1 = resolve_iteration_fs [OF r]
  from r have le: "fst (resolve_iteration (model_path args) li w) = loaded" by simp
  from r1 have f1: "fs w1 = fs w" by simp
  let ?R = "Scene_init env args li sh S w"
  let ?pre = "trace w @ resolve_events li loaded @ loader_events args (fs w)"
  from r show ?thesis
  proof (cases rule: Scene_init_cases [where env = env and sh = sh and S = S])
    case (no_scene e w2)
    note l = load_scene_info_step [OF no_scene(1) f1]
    have "trace (snd ?R) = ?pre @ []" using no_scene(2) l(4) r1 by simp
    moreover have "expected_writes env args li w = []"
      using l(1) by (simp add: expected_writes_def)
    ultimately show ?thesis by (intro exI [of _ "[]"]) (simp add: le)
  next
    case (no_dump si w2 e w3)
    note l = load_scene_info_step [OF no_dump(1) f1]
    from dump_inputs_Inl [OF no_dump(3)] have w3: "w3 = w2"
      and nf: "files (fs w2) (ply_path si) = None" by simp_all
    have "trace (snd ?R) = ?pre @ []" using no_dump(4) w3 l(4) r1 by simp
    moreover have "expected_writes env args li w = []"
      using l(1) l(2) nf no_dump(2) le by (simp add: expected_writes_def)
    ultimately show ?thesis by (intro exI [of _ "[]"]) (simp add: le)
  next
    case (no_shuffle si w2 u w3 e w4)
    note l = load_scene_info_step [OF no_shuffle(1) f1]
    from dump_step(2) [OF no_shuffle(2)] obtain dump where
      dump: "trace w3 = trace w2 @ map (\<lambda>(p, c). Write_file p c) dump"
      "if truthy loaded then dump = []
       else \<exists>c. files (fs w2) (ply_path si) = Some c \<and> dump = dump_writes env (model_path args) si c"
      by blast
    from shuffle_cameras_world [OF no_shuffle(4)] have t4: "trace w4 = trace w3" by simp
    have "trace (snd ?R) = ?pre @ map (\<lambda>(p, c). Write_file p c) dump"
      using no_shuffle(5) t4 dump(1) l(4) r1 by simp
    moreover have "expected_writes env args li w = dump"
      using l(1) l(2) dump(2) le by (auto simp: expected_writes_def)
    moreover have "\<not> completes ?R" using no_shuffle(5) by (simp add: completes_def)
    ultimately show ?thesis
      by (intro exI [of _ "map (\<lambda>(p, c). Write_file p c) dump"])
         (simp add: le file_writes_map other_calls_map)
  next
    case (no_radius si w2 u w3 si' w4)
    note l = load_scene_info_step [OF no_radius(1) f1]
    from dump_step(2) [OF no_radius(2)] obtain dump where
      dump: "trace w3 = trace w2 @ map (\<lambda>(p, c). Write_file p c) dump"
      "if truthy loaded then dump = []
       else \<exists>c. files (fs w2) (ply_path si) = Some c \<and> dump = dump_writes env (model_path args) si c"
      by blast
    from shuffle_step(1) [OF no_radius(3)] have t4: "trace w4 = trace w3" .
    have "trace (snd ?R) = ?pre @ map (\<lambda>(p, c). Write_file p c) dump"
      using no_radius(5) t4 dump(1) l(4) r1 by simp
    moreover have "expected_writes env args li w = dump"
      using l(1) l(2) dump(2) le by (auto simp: expected_writes_def)
    ultimately show ?thesis
      by (intro exI [of _ "map (\<lambda>(p, c). Write_file p c) dump"])
         (simp add: le file_writes_map other_calls_map)
  next
    case (complete si w2 u w3 si' w4 radius)
    note l = load_scene_info_step [OF complete(1) f1]
    from dump_step(2) [OF complete(2)] obtain dump where
      dump: "trace w3 = trace w2 @ map (\<lambda>(p, c). Write_file p c) dump"
      "if truthy loaded then dump = []
       else \<exists>c. files (fs w2) (ply_path si) = Some c \<and> dump = dump_writes env (model_path args) si c"
      by blast
    from shuffle_step(1) [OF complete(3)] have t4: "trace w4 = trace w3" .
    have "trace (snd ?R) = ?pre @ (map (\<lambda>(p, c). Write_file p c) dump @ camera_prints S
        @ [final_event args loaded si' radius])"
      using complete(5) t4 dump(1) l(4) r1
      by (simp add: init_gaussians_def emit_def final_event_def built_scene_def)
    moreover have "expected_writes env args li w = dump"
      using l(1) l(2) dump(2) le by (auto simp: expected_writes_def)
    moreover have "completes ?R" using complete(5) by (simp add: completes_def)
    ultimately show ?thesis
      by (simp add: le calls_append file_writes_map other_calls_map camera_prints_quiet
          final_event_quiet)
  qed
qed

lemma Scene_init_file_writes:
  "file_writes (new_events w (snd (Scene_init env args li sh S w))) = expected_writes env args li w"
proof -
  from Scene_init_any [of env args li sh S w] obtain rest where
    "trace (snd (Scene_init env args li sh S w)) =
       trace w @ resolve_events li (fst (resolve_iteration (model_path args) li w))
         @ loader_events args (fs w) @ rest"
    "file_writes rest = expected_writes env args li w" by blast
  then show ?thesis
    by (simp add: new_events_def calls_append resolve_events_quiet loader_events_quiet)
qed

lemma Scene_init_loader_calls:
  "loader_calls (new_events w (snd (Scene_init env args li sh S w))) =
     (if os_path_exists (fs w) (os_path_join (source_path args) [''sparse''])
      then [''Colmap'']
      else if os_path_exists (fs w) (os_path_join (source_path args) [''transforms_train.json''])
      then [''Blender''] else [])"
proof -
  from Scene_init_any [of env args li sh S w] obtain rest where
    "trace (snd (Scene_init env args li sh S w)) =
       trace w @ resolve_events li (fst (resolve_iteration (model_path args) li w))
         @ loader_events args (fs w) @ rest"
    "loader_calls rest = []" by blast
  then show ?thesis
    by (simp add: new_events_def calls_append resolve_events_quiet loader_events_def)
qed

lemma Scene_init_failed_model_calls:
  assumes "\<not> completes (Scene_init env args li sh S w)"
  shows "load_ply_calls (new_events w (snd (Scene_init env args li sh S w))) = []"
    "create_from_pcd_calls (new_events w (snd (Scene_init env args li sh S w))) = []"
proof -
  from Scene_init_any [of env args li sh S w] assms obtain rest where
    "trace (snd (Scene_init env args li sh S w)) =
       trace w @ resolve_events li (fst (resolve_iteration (model_path args) li w))
         @ loader_events args (fs w) @ rest"
    "load_ply_calls rest = []" "create_from_pcd_calls rest = []" by blast
  then show "load_ply_calls (new_events w (snd (Scene_init env args li sh S w))) = []"
    "create_from_pcd_calls (new_events w (snd (Scene_init env args li sh S w))) = []"
    by (simp_all add: new_events_def calls_append resolve_events_quiet loader_events_quiet)
qed

subsection \<open>What a completed construction has done\<close>

lemma Scene_init_model_calls:
  assumes "Scene_init env args li sh S w = (Inr self, w')"
  shows "load_ply_calls (new_events w w') =
           (if truthy (self_loaded_iter self)
            then [os_path_join (self_model_path self)
                    [''point_cloud'', ''iteration_'' @ str_opt (self_loaded_iter self),
                     ''point_cloud.ply'']]
            else [])"
    and "\<exists>si. fst (load_scene_info env args w) = Inr si
           \<and> create_from_pcd_calls (new_events w w') =
               (if truthy (self_loaded_iter self) then []
                else [(point_cloud si, self_cameras_extent self)])"
proof -
  from Scene_init_complete [OF assms] obtain si si' radius dump where
    si: "fst (load_scene_info env args w) = Inr si"
    and self: "self = built_scene env args (fst (resolve_iteration (model_path args) li w)) si' S radius
        (next_id w)"
    and tr: "trace w' = trace w @ resolve_events li (fst (resolve_iteration (model_path args) li w))
         @ loader_events args (fs w) @ map (\<lambda>(p, c). Write_file p c) dump @ camera_prints S
         @ [final_event args (fst (resolve_iteration (model_path args) li w)) si radius]"
    by blast
  from tr show "load_ply_calls (new_events w w') =
           (if truthy (self_loaded_iter self)
            then [os_path_join (self_model_path self)
                    [''point_cloud'', ''iteration_'' @ str_opt (self_loaded_iter self),
                     ''point_cloud.ply'']]
            else [])"
    by (simp add: new_events_def calls_append resolve_events_quiet loader_events_quiet
        other_calls_map camera_prints_quiet final_event_def self built_scene_def)
  from tr have "create_from_pcd_calls (new_events w w') =
               (if truthy (self_loaded_iter self) then []
                else [(point_cloud si, self_cameras_extent self)])"
    by (simp add: new_events_def calls_append resolve_events_quiet loader_events_quiet
        other_calls_map camera_prints_quiet final_event_def self built_scene_def)
  with si show "\<exists>si. fst (load_scene_info env args w) = Inr si
           \<and> create_from_pcd_calls (new_events w w') =
               (if truthy (self_loaded_iter self) then []
                else [(point_cloud si, self_cameras_extent self)])"
    by blast
qed

lemma Scene_init_writes:
  assumes "Scene_init env args li sh S w = (Inr self, w')"
  shows "\<exists>si. fst (load_scene_info env args w) = Inr si
     \<and> (if truthy (self_loaded_iter self) then file_writes (new_events w w') = []
         else \<exists>c. files (fs (snd (load_scene_info env args w))) (ply_path si) = Some c
                \<and> file_writes (new_events w w') = dump_writes env (model_path args) si c)"
proof -
  from Scene_init_complete [OF assms] obtain si si' radius dump where
    si: "fst (load_scene_info env args w) = Inr si"
    and self: "self = built_scene env args (fst (resolve_iteration (model_path args) li w)) si' S radius
        (next_id w)"
    and dump: "if truthy (fst (resolve_iteration (model_path args) li w)) then dump = []
        else \<exists>c. files (fs (snd (load_scene_info env args w))) (ply_path si) = Some c
               \<and> dump = dump_writes env (model_path args) si c"
    and tr: "trace w' = trace w @ resolve_events li (fst (resolve_iteration (model_path args) li w))
         @ loader_events args (fs w) @ map (\<lambda>(p, c). Write_file p c) dump @ camera_prints S
         @ [final_event args (fst (resolve_iteration (model_path args) li w)) si radius]"
    by blast
  from tr have "file_writes (new_events w w') = dump"
    by (simp add: new_events_def calls_append resolve_events_quiet loader_events_quiet
        file_writes_map camera_prints_quiet final_event_quiet)
  moreover have "self_loaded_iter self = fst (resolve_iteration (model_path args) li w)"
    by (simp add: self built_scene_def)
  ultimately show ?thesis using si dump by (auto split: if_splits)
qed

lemma Scene_init_loaded_iter:
  assumes "Scene_init env args li sh S w = (Inr self, w')"
  shows "self_loaded_iter self = fst (resolve_iteration (model_path args) li w)"
    "self_model_path self = model_path args"
proof -
  from Scene_init_complete [OF assms] obtain si' radius where
    "self = built_scene env args (fst (resolve_iteration (model_path args) li w)) si' S radius
        (next_id w)"
    by blast
  then show "self_loaded_iter self = fst (resolve_iteration (model_path args) li w)"
    "self_model_path self = model_path args"
    by (simp_all add: built_scene_def)
qed

lemma demo_completes_resumed:
  "completes (Scene_init demo_env demo_args (Some 5) True [1, 2] demo_world)"
  by code_simp

subsection \<open>Paths, the camera array, the loaders, the scanner\<close>

lemma os_path_join_last:
  "b \<noteq> [] \<Longrightarrow> os_path_join mp [b] \<noteq> [] \<and> last (os_path_join mp [b]) = last b"
  by (simp add: os_path_join_def join_step_def)

lemma input_ply_not_cameras_json:
  "os_path_join mp [''input.ply''] \<noteq> os_path_join mp [''cameras.json'']"
proof
  assume "os_path_join mp [''input.ply''] = os_path_join mp [''cameras.json'']"
  then have "last (os_path_join mp [''input.ply'']) = last (os_path_join mp [''cameras.json''])"
    by simp
  then show False by (simp add: os_path_join_last)
qed

lemma json_cams_of_nth:
  "json_cams_of f xs = map (\<lambda>i. f i (xs ! i)) [0..<length xs]"
  by (rule nth_equalityI) (simp_all add: json_cams_of_def nth_enumerate_eq)

lemma camlist_of_append: "camlist_of si = test_cameras si @ train_cameras si"
  by (simp add: camlist_of_def)

lemma demo_scene_info:
  "fst (load_scene_info demo_env demo_args demo_world) =
     Inr (demo_info ''data/sparse/0/points3D.ply'')"
  by (simp add: load_scene_info_def demo_env_def demo_args_def demo_world_def emit_def
      os_path_exists_def os_path_join_def join_step_def startswith_sep_def endswith_sep_def)

lemma demo_completes_zero:
  "completes (Scene_init demo_env demo_args (Some 0) False [1, 2] demo_world)"
  by code_simp

lemma load_scene_info_Colmap:
  "os_path_exists (fs w) (os_path_join (source_path args) [''sparse'']) \<Longrightarrow>
     fst (load_scene_info env args w) =
       Inr (fst (Colmap env (source_path args) (images args) (eval args) (fs w)))"
  by (simp add: load_scene_info_def emit_def Let_def split_def)

lemma load_scene_info_Blender:
  "\<not> os_path_exists (fs w) (os_path_join (source_path args) [''sparse'']) \<Longrightarrow>
   os_path_exists (fs w) (os_path_join (source_path args) [''transforms_train.json'']) \<Longrightarrow>
     fst (load_scene_info env args w) =
       Inr (fst (Blender env (source_path args) (white_background args) (eval args) (fs w)))"
  by (simp add: load_scene_info_def emit_def Let_def split_def)

lemma load_scene_info_unrecognized:
  "\<not> os_path_exists (fs w) (os_path_join (source_path args) [''sparse'']) \<Longrightarrow>
   \<not> os_path_exists (fs w) (os_path_join (source_path args) [''transforms_train.json'']) \<Longrightarrow>
     load_scene_info env args w = (Inl (AssertionError ''Could not recognize scene type!''), w)"
  by (simp add: load_scene_info_def)

lemma Scene_init_unrecognized:
  assumes "\<not> os_path_exists (fs w) (os_path_join (source_path args) [''sparse''])"
    and "\<not> os_path_exists (fs w) (os_path_join (source_path args) [''transforms_train.json''])"
  shows "fst (Scene_init env args li sh S w) = Inl (AssertionError ''Could not recognize scene type!'')"
proof -
  obtain loaded w1 where r: "resolve_iteration (model_path args) li w = (loaded, w1)"
    by (cases "resolve_iteration (model_path args) li w")
  from resolve_iteration_fs [OF r] have "fs w1 = fs w" by simp
  with assms have "load_scene_info env args w1 =
      (Inl (AssertionError ''Could not recognize scene type!''), w1)"
    by (simp add: load_scene_info_unrecognized)
  with r show ?thesis by (simp add: Scene_init_def)
qed

lemma searchForMaxIteration_Max:
  assumes "iterations fsys folder \<noteq> []"
  shows "searchForMaxIteration fsys folder = Some (Max (set (iterations fsys folder)))"
proof (cases "iterations fsys folder")
  case Nil
  with assms show ?thesis by simp
next
  case (Cons a list)
  have "fold max list a = Max (set (a # list))" by (rule Max.set_eq_fold [symmetric])
  with Cons show ?thesis by (simp add: searchForMaxIteration_def)
qed

lemma demo_completes_latest:
  "completes (Scene_init demo_env demo_args (Some (- 1)) True [1, 2] demo_world)"
  by code_simp

lemma endswith_sep_iff: "endswith_sep p = (p \<noteq> [] \<and> last p = CHR ''/'')"
  by (cases p rule: rev_cases) (simp_all add: endswith_sep_def)

lemma digit_not_sep: "k < 10 \<Longrightarrow> ''0123456789'' ! k \<noteq> CHR ''/''"
proof -
  assume "k < 10"
  then have "''0123456789'' ! k \<in> set ''0123456789''" by (intro nth_mem) simp
  then show ?thesis by auto
qed

lemma str_nat_last: "str_nat n \<noteq> [] \<and> last (str_nat n) \<noteq> CHR ''/''"
proof (cases "n < 10")
  case True
  then show ?thesis by (subst (1 2) str_nat.simps) (simp add: digit_not_sep)
next
  case False
  have "n mod 10 < 10" by simp
  then have "''0123456789'' ! (n mod 10) \<noteq> CHR ''/''" by (rule digit_not_sep)
  with False show ?thesis by (subst (1 2) str_nat.simps) simp
qed

lemma str_int_last: "str_int N \<noteq> [] \<and> last (str_int N) \<noteq> CHR ''/''"
  using str_nat_last by (simp add: str_int_def)

lemma save_path:
  "os_path_join (os_path_join mp [''point_cloud/iteration_'' @ str_int N]) [''point_cloud.ply''] =
     join_step mp (''point_cloud/iteration_'' @ str_int N @ ''/point_cloud.ply'')"
  using str_int_last [of N]
  by (simp add: os_path_join_def join_step_def startswith_sep_def endswith_sep_iff)

lemma load_path:
  "os_path_join mp [''point_cloud'', ''iteration_'' @ str_int N, ''point_cloud.ply''] =
     join_step mp (''point_cloud/iteration_'' @ str_int N @ ''/point_cloud.ply'')"
  using str_int_last [of N]
  by (simp add: os_path_join_def join_step_def startswith_sep_def endswith_sep_iff)

lemma save_events:
  "new_events w (save self N w) =
     [Save_ply (os_path_join
        (os_path_join (self_model_path self) [''point_cloud/iteration_'' @ str_int N])
        [''point_cloud.ply''])]"
  by (simp add: save_def emit_def new_events_def Let_def)

lemma demo_saved_completes:
  "completes (Scene_init demo_env demo_args (Some 5) True [1, 2] (saved_world 5))"
  by code_simp

lemma demo_scene_path: "self_model_path demo_scene = model_path demo_args"
  by code_simp

subsection \<open>The camera lists of a completed construction\<close>

lemma Scene_init_cameras:
  assumes run: "Scene_init env args li sh S w = (Inr self, w')"
    and si: "fst (load_scene_info env args w) = Inr si"
  shows "\<exists>train test.
      (if sh then \<exists>g. random_shuffle (randbelow env) (train_cameras si) (rng w) = (Inr train, g)
                    \<and> random_shuffle (randbelow env) (test_cameras si) g = (Inr test, rng w')
       else train = train_cameras si \<and> test = test_cameras si)
    \<and> (\<forall>s. map_option items (self_train_cameras self s) =
           (if s \<in> set S then Some (cameraList_from_camInfos env train s args) else None))
    \<and> (\<forall>s. map_option items (self_test_cameras self s) =
           (if s \<in> set S then Some (cameraList_from_camInfos env test s args) else None))"
proof -
  from Scene_init_complete [OF run] obtain si0 si' radius where
    si0: "fst (load_scene_info env args w) = Inr si0"
    and sh: "if sh then \<exists>g1. random_shuffle (randbelow env) (train_cameras si0) (rng w) = (Inr (train_cameras si'), g1)
                  \<and> random_shuffle (randbelow env) (test_cameras si0) g1 = (Inr (test_cameras si'), rng w')
        else si' = si0 \<and> rng w' = rng w"
    and self: "self = built_scene env args (fst (resolve_iteration (model_path args) li w)) si' S radius
        (next_id w)"
    by blast
  from si si0 have e: "si0 = si" by simp
  have "if sh then \<exists>g. random_shuffle (randbelow env) (train_cameras si) (rng w) = (Inr (train_cameras si'), g)
                    \<and> random_shuffle (randbelow env) (test_cameras si) g = (Inr (test_cameras si'), rng w')
       else train_cameras si' = train_cameras si \<and> test_cameras si' = test_cameras si"
    using sh unfolding e by (auto split: if_splits)
  moreover have "\<forall>s. map_option items (self_train_cameras self s) =
         (if s \<in> set S then Some (cameraList_from_camInfos env (train_cameras si') s args) else None)"
    "\<forall>s. map_option items (self_test_cameras self s) =
         (if s \<in> set S then Some (cameraList_from_camInfos env (test_cameras si') s args) else None)"
    by (simp_all add: self built_scene_def)
  ultimately show ?thesis by blast
qed

lemma demo_randbelow_ok: "randbelow_ok (randbelow demo_env)"
  by (simp add: randbelow_ok_def demo_env_def)

lemma demo_completes_shuffled:
  "completes (Scene_init demo_env demo_args None True [1, 2] demo_world)"
  by code_simp

lemma demo_shuffle_train:
  "random_shuffle (randbelow demo_env) (train_cameras (demo_info ''data/sparse/0/points3D.ply''))
     (rng demo_world) = (Inr [3, 2, 1], 2)"
  by code_simp

subsection \<open>Every permutation can come out of the shuffle\<close>

lemma randbelow_ok_replay: "randbelow_ok replay"
  by (auto simp: randbelow_ok_def replay_def split: list.splits)

lemma shuffle_loop_reach:
  assumes "k < length x" "length y = length x"
    "mset (take (Suc k) y) = mset (take (Suc k) x)" "drop (Suc k) y = drop (Suc k) x"
  shows "\<exists>ds. \<forall>rest. shuffle_loop replay k x (ds @ rest) = (Inr y, rest)"
  using assms
proof (induction k arbitrary: x)
  case 0
  from 0(1) obtain a xs where x: "x = a # xs" by (cases x) auto
  from 0(1,2) obtain b ys where y: "y = b # ys" by (cases y) auto
  from 0(3,4) have "y = x" unfolding x y by simp
  then have "\<forall>rest. shuffle_loop replay 0 x ([] @ rest) = (Inr y, rest)" by simp
  then show ?case by blast
next
  case (Suc k)
  let ?i = "Suc k"
  have iy: "?i < length y" using Suc.prems(1,2) by simp
  have lt: "length (take (Suc ?i) x) = Suc ?i" using Suc.prems(1) by simp
  have "y ! ?i = take (Suc ?i) y ! ?i" by simp
  also have "\<dots> \<in> set (take (Suc ?i) y)" using iy by (intro nth_mem) simp
  finally have "y ! ?i \<in># mset (take (Suc ?i) y)" by simp
  then have "y ! ?i \<in> set (take (Suc ?i) x)" unfolding Suc.prems(3) by simp
  then obtain j where j: "j < Suc ?i" "take (Suc ?i) x ! j = y ! ?i"
    unfolding in_set_conv_nth lt by blast
  then have xj: "x ! j = y ! ?i" by simp
  have jl: "j < length x" using j(1) Suc.prems(1) by simp
  define x' where "x' = x[?i := x ! j, j := x ! ?i]"
  have x'i: "x' ! ?i = y ! ?i"
    unfolding x'_def using xj jl Suc.prems(1) by (cases "j = ?i") simp_all
  have lx': "length x' = length x" unfolding x'_def by simp
  have dS: "drop (Suc ?i) x' = drop (Suc ?i) x"
    unfolding x'_def using j(1) by simp
  have d: "drop ?i y = drop ?i x'"
    using Cons_nth_drop_Suc [OF iy, symmetric] Cons_nth_drop_Suc [of ?i x', symmetric]
      Suc.prems(1,4) lx' x'i dS by simp
  have "take (Suc ?i) x' = (take (Suc ?i) x)[?i := take (Suc ?i) x ! j, j := take (Suc ?i) x ! ?i]"
    unfolding x'_def using j(1) by (simp add: take_update_swap)
  moreover have "mset ((take (Suc ?i) x)[?i := take (Suc ?i) x ! j, j := take (Suc ?i) x ! ?i])
      = mset (take (Suc ?i) x)"
    by (rule mset_swap) (use j(1) lt in simp_all)
  ultimately have "mset (take (Suc ?i) x') = mset (take (Suc ?i) y)"
    using Suc.prems(3) by simp
  moreover have "take (Suc ?i) x' = take ?i x' @ [x' ! ?i]"
    by (rule take_Suc_conv_app_nth) (use Suc.prems(1) lx' in simp)
  moreover have "take (Suc ?i) y = take ?i y @ [y ! ?i]"
    by (rule take_Suc_conv_app_nth) (rule iy)
  ultimately have "mset (take ?i x' @ [y ! ?i]) = mset (take ?i y @ [y ! ?i])"
    using x'i by simp
  then have m: "mset (take ?i y) = mset (take ?i x')" by simp
  have "k < length x'" using Suc.prems(1) lx' by simp
  from Suc.IH [OF this _ m d] Suc.prems(2) lx'
  obtain ds where ds: "\<forall>rest. shuffle_loop replay k x' (ds @ rest) = (Inr y, rest)" by auto
  have "\<forall>rest. shuffle_loop replay ?i x ((j # ds) @ rest) = (Inr y, rest)"
    using ds j(1) jl Suc.prems(1) by (simp add: replay_def x'_def)
  then show ?case by blast
qed

lemma random_shuffle_reach:
  assumes "mset y = mset x"
  shows "\<exists>ds. \<forall>rest. random_shuffle replay x (ds @ rest) = (Inr y, rest)"
proof (cases x)
  case Nil
  with assms have "\<forall>rest. random_shuffle replay x ([] @ rest) = (Inr y, rest)"
    by (simp add: random_shuffle_def)
  then show ?thesis by blast
next
  case (Cons a xs)
  from assms have l: "length y = length x" by (rule mset_eq_length)
  have "\<exists>ds. \<forall>rest. shuffle_loop replay (length x - 1) x (ds @ rest) = (Inr y, rest)"
    by (rule shuffle_loop_reach) (use assms l Cons in simp_all)
  then show ?thesis unfolding random_shuffle_def .
qed

lemma resolve_iteration_replay:
  "fs w0 = fs w \<Longrightarrow> fst (resolve_iteration mp li w0) = fst (resolve_iteration mp li w)"
  by (simp add: resolve_iteration_def Let_def)

lemma load_scene_info_replaying:
  "fs w1 = fs w \<Longrightarrow>
     fst (load_scene_info (replaying env) args w1) = fst (load_scene_info env args w)"
  "fs w1 = fs w \<Longrightarrow>
     fs (snd (load_scene_info (replaying env) args w1)) = fs (snd (load_scene_info env args w))"
  by (simp_all add: load_scene_info_def replaying_def emit_def Let_def split_def)

lemma Scene_init_replay:
  assumes run: "Scene_init env args li sh S w = (Inr self, w')"
    and si: "fst (load_scene_info env args w) = Inr si"
    and tr: "mset train = mset (train_cameras si)"
    and te: "mset test = mset (test_cameras si)"
  shows "\<exists>draws self2 w2.
      Scene_init (replaying env) args li True S (with_draws w draws) = (Inr self2, w2)
    \<and> (\<forall>s. map_option items (self_train_cameras self2 s) =
            (if s \<in> set S then Some (cameraList_from_camInfos env train s args) else None))
    \<and> (\<forall>s. map_option items (self_test_cameras self2 s) =
            (if s \<in> set S then Some (cameraList_from_camInfos env test s args) else None))"
proof -
  from Scene_init_complete [OF run] si obtain radius where
    rad: "nerf_normalization si ''radius'' = Some radius" and
    dump: "\<not> truthy (fst (resolve_iteration (model_path args) li w)) \<Longrightarrow>
       \<exists>c. files (fs (snd (load_scene_info env args w))) (ply_path si) = Some c"
    by (auto split: if_splits)
  from random_shuffle_reach [OF tr] obtain ds1 where
    ds1: "\<And>rest. random_shuffle replay (train_cameras si) (ds1 @ rest) = (Inr train, rest)"
    by blast
  from random_shuffle_reach [OF te] obtain ds2 where
    ds2: "\<And>rest. random_shuffle replay (test_cameras si) (ds2 @ rest) = (Inr test, rest)"
    by blast
  let ?w0 = "with_draws w (ds1 @ ds2)"
  let ?env = "replaying env"
  have f0: "fs ?w0 = fs w" and g0: "rng ?w0 = ds1 @ ds2" by (simp_all add: with_draws_def)
  have rb: "randbelow ?env = replay" by (simp add: replaying_def)
  obtain loaded w1 where r: "resolve_iteration (model_path args) li ?w0 = (loaded, w1)"
    by (cases "resolve_iteration (model_path args) li ?w0")
  note r1 = resolve_iteration_fs [OF r]
  from r resolve_iteration_replay [OF f0, of "model_path args" li]
  have le: "fst (resolve_iteration (model_path args) li w) = loaded" by simp
  from r1 f0 have f1: "fs w1 = fs w" by simp
  note l0 = load_scene_info_replaying [OF f1, of env args]
  have shuf: "rng w3 = ds1 @ ds2 \<Longrightarrow>
      shuffle_cameras replay si w3 =
        (Inr (si\<lparr>train_cameras := train, test_cameras := test\<rparr>), w3\<lparr>rng := []\<rparr>)" for w3
    using ds1 [of ds2] ds2 [of "[]"] by (simp add: shuffle_cameras_def)
  from r show ?thesis
  proof (cases rule: Scene_init_cases [where env = ?env and sh = True and S = S])
    case (no_scene e w2)
    with l0(1) si show ?thesis by simp
  next
    case (no_dump si2 w2 e w3)
    from no_dump(1) l0 si have s2: "si2 = si"
      and f2: "fs w2 = fs (snd (load_scene_info env args w))" by simp_all
    from dump_inputs_Inl [OF no_dump(3)] have "files (fs w2) (ply_path si2) = None" by simp
    with dump no_dump(2) le s2 f2 show ?thesis by simp
  next
    case (no_shuffle si2 w2 u w3 e w4)
    from no_shuffle(1) l0 si have s2: "si2 = si" by simp
    have f1': "fs w1 = fs w1" by simp
    note l = load_scene_info_step [OF no_shuffle(1) f1']
    note d = dump_step [OF no_shuffle(2)]
    have "rng w3 = ds1 @ ds2" using d(1) l(3) r1 g0 by simp
    from shuf [OF this] no_shuffle(4) show ?thesis unfolding rb s2 by simp
  next
    case (no_radius si2 w2 u w3 si' w4)
    from no_radius(1) l0 si have s2: "si2 = si" by simp
    note s = shuffle_step [OF no_radius(3)]
    from s(4) no_radius(4) rad s2 show ?thesis by simp
  next
    case (complete si2 w2 u w3 si' w4 radius2)
    from complete(1) l0 si have s2: "si2 = si" by simp
    have f1': "fs w1 = fs w1" by simp
    note l = load_scene_info_step [OF complete(1) f1']
    note d = dump_step [OF complete(2)]
    have "rng w3 = ds1 @ ds2" using d(1) l(3) r1 g0 by simp
    from shuf [OF this] complete(3)
    have si': "si' = si\<lparr>train_cameras := train, test_cameras := test\<rparr>"
      unfolding rb s2 by simp
    have "\<forall>s. map_option items (self_train_cameras
            (built_scene ?env args loaded si' S radius2 (next_id w4)) s) =
            (if s \<in> set S then Some (cameraList_from_camInfos env train s args) else None)"
      by (simp add: built_scene_def si' replaying_def)
    moreover have "\<forall>s. map_option items (self_test_cameras
            (built_scene ?env args loaded si' S radius2 (next_id w4)) s) =
            (if s \<in> set S then Some (cameraList_from_camInfos env test s args) else None)"
      by (simp add: built_scene_def si' replaying_def)
    ultimately show ?thesis using complete(5) by blast
  qed
qed

section \<open>The claims\<close>

subsection \<open>Runs of the concrete scene\<close>

lemma demo_completes_fresh:
  "completes (Scene_init demo_env demo_args None False [1, 2] demo_world)"
  by code_simp

subsection \<open>The camera mappings\<close>

text \<open>
  Claim C8. After a construction with resolution scales \<open>S\<close> the train-camera mapping
  and the test-camera mapping have the same keys: the scales of \<open>S\<close>, and no other
  key. This holds of every scene a construction returns.
\<close>

theorem C8_camera_keys:
  assumes "Scene_init env args load_iteration shuffle resolution_scales w = (Inr self, w')"
  shows "dom (self_train_cameras self) = set resolution_scales
       \<and> dom (self_test_cameras self) = set resolution_scales"
proof -
  from Scene_init_complete [OF assms] obtain loaded si' radius
    where "self = built_scene env args loaded si' resolution_scales radius (next_id w)"
    by blast
  then show ?thesis by (auto simp: built_scene_def dom_def)
qed

theorem C8_camera_keys_witness:
  "completes (Scene_init demo_env demo_args None False [1, 2] demo_world)
   \<and> dom (self_train_cameras (projr (fst (Scene_init demo_env demo_args None False [1, 2] demo_world)))) = {1, 2}
   \<and> dom (self_test_cameras (projr (fst (Scene_init demo_env demo_args None False [1, 2] demo_world)))) = {1, 2}"
  using C8_camera_keys [OF completesD [OF demo_completes_fresh]] demo_completes_fresh
  by simp

text \<open>
  Claim C9. \<open>getTrainCameras(scale)\<close> and \<open>getTestCameras(scale)\<close>: for a scale that
  was given to the constructor the call returns the list object stored for that scale,
  the object itself, with the identity it was given when the constructor made it, and
  with its items. The getters read the scene and nothing else, so every call for that
  scale returns that one object. The stored lists are pairwise different objects:
  different scales have different train lists and different test lists, and no train
  list is a test list. For any other scale the call fails with a key error.
\<close>

theorem C9_camera_lookup:
  assumes "Scene_init env args load_iteration shuffle resolution_scales w = (Inr self, w')"
  shows "(\<forall>scale \<in> set resolution_scales.
            \<exists>train test.
              self_train_cameras self scale = Some train \<and> getTrainCameras self scale = Inr train
            \<and> self_test_cameras self scale = Some test \<and> getTestCameras self scale = Inr test
            \<and> next_id w \<le> list_id train \<and> list_id train < next_id w'
            \<and> next_id w \<le> list_id test \<and> list_id test < next_id w')
       \<and> (\<forall>scale. scale \<notin> set resolution_scales \<longrightarrow>
            getTrainCameras self scale = Inl KeyError \<and> getTestCameras self scale = Inl KeyError)
       \<and> (\<forall>s t a b. getTrainCameras self s = Inr a \<and> getTrainCameras self t = Inr b \<and> s \<noteq> t
            \<longrightarrow> list_id a \<noteq> list_id b)
       \<and> (\<forall>s t a b. getTestCameras self s = Inr a \<and> getTestCameras self t = Inr b \<and> s \<noteq> t
            \<longrightarrow> list_id a \<noteq> list_id b)
       \<and> (\<forall>s t a b. getTrainCameras self s = Inr a \<and> getTestCameras self t = Inr b
            \<longrightarrow> list_id a \<noteq> list_id b)"
proof -
  from Scene_init_complete [OF assms] obtain loaded si' radius
    where self: "self = built_scene env args loaded si' resolution_scales radius (next_id w)"
      and n: "next_id w' = next_id w + 2 * length resolution_scales"
    by blast
  have "\<forall>scale \<in> set resolution_scales.
            \<exists>train test.
              self_train_cameras self scale = Some train \<and> getTrainCameras self scale = Inr train
            \<and> self_test_cameras self scale = Some test \<and> getTestCameras self scale = Inr test
            \<and> next_id w \<le> list_id train \<and> list_id train < next_id w'
            \<and> next_id w \<le> list_id test \<and> list_id test < next_id w'"
  proof
    fix scale
    assume "scale \<in> set resolution_scales"
    from this last_idx_less [OF this]
    show "\<exists>train test.
              self_train_cameras self scale = Some train \<and> getTrainCameras self scale = Inr train
            \<and> self_test_cameras self scale = Some test \<and> getTestCameras self scale = Inr test
            \<and> next_id w \<le> list_id train \<and> list_id train < next_id w'
            \<and> next_id w \<le> list_id test \<and> list_id test < next_id w'"
      unfolding n by (simp add: self built_scene_def getTrainCameras_def getTestCameras_def)
  qed
  moreover have "\<forall>scale. scale \<notin> set resolution_scales \<longrightarrow>
      getTrainCameras self scale = Inl KeyError \<and> getTestCameras self scale = Inl KeyError"
    by (simp add: self built_scene_def getTrainCameras_def getTestCameras_def)
  moreover have "\<forall>s t a b. getTrainCameras self s = Inr a \<and> getTrainCameras self t = Inr b \<and> s \<noteq> t
      \<longrightarrow> list_id a \<noteq> list_id b"
    using last_idx_inj [of _ resolution_scales]
    by (auto simp: self built_scene_def getTrainCameras_def split: if_splits)
  moreover have "\<forall>s t a b. getTestCameras self s = Inr a \<and> getTestCameras self t = Inr b \<and> s \<noteq> t
      \<longrightarrow> list_id a \<noteq> list_id b"
    using last_idx_inj [of _ resolution_scales]
    by (auto simp: self built_scene_def getTestCameras_def split: if_splits)
  moreover have "\<forall>s t a b. getTrainCameras self s = Inr a \<and> getTestCameras self t = Inr b
      \<longrightarrow> list_id a \<noteq> list_id b"
  proof (intro allI impI)
    fix s t a b
    assume "getTrainCameras self s = Inr a \<and> getTestCameras self t = Inr b"
    then have "list_id a = next_id w + 2 * last_idx resolution_scales s"
      "list_id b = Suc (next_id w + 2 * last_idx resolution_scales t)"
      by (auto simp: self built_scene_def getTrainCameras_def getTestCameras_def split: if_splits)
    then show "list_id a \<noteq> list_id b" by presburger
  qed
  ultimately show ?thesis by blast
qed

theorem C9_camera_lookup_witness:
  "completes (Scene_init demo_env demo_args None False [1, 2] demo_world)
   \<and> self_train_cameras (projr (fst (Scene_init demo_env demo_args None False [1, 2] demo_world))) 2
       = Some (Py_list 2 [(1, 2), (2, 2), (3, 2)])
   \<and> getTrainCameras (projr (fst (Scene_init demo_env demo_args None False [1, 2] demo_world))) 2
       = Inr (Py_list 2 [(1, 2), (2, 2), (3, 2)])
   \<and> getTestCameras (projr (fst (Scene_init demo_env demo_args None False [1, 2] demo_world))) 3
       = Inl KeyError"
proof -
  note t = C9_camera_lookup [OF completesD [OF demo_completes_fresh]]
  have s: "self_train_cameras (projr (fst (Scene_init demo_env demo_args None False [1, 2] demo_world))) 2
       = Some (Py_list 2 [(1, 2), (2, 2), (3, 2)])"
    by code_simp
  from t have "\<exists>train. self_train_cameras (projr (fst (Scene_init demo_env demo_args None False [1, 2] demo_world))) 2
         = Some train
       \<and> getTrainCameras (projr (fst (Scene_init demo_env demo_args None False [1, 2] demo_world))) 2
         = Inr train"
    by fastforce
  with s have g: "getTrainCameras (projr (fst (Scene_init demo_env demo_args None False [1, 2] demo_world))) 2
       = Inr (Py_list 2 [(1, 2), (2, 2), (3, 2)])"
    by auto
  from t have k: "getTestCameras (projr (fst (Scene_init demo_env demo_args None False [1, 2] demo_world))) 3
       = Inl KeyError"
    by simp
  from s g k demo_completes_fresh show ?thesis by simp
qed

subsection \<open>Restoring or creating the model\<close>




subsection \<open>The files a construction writes\<close>

text \<open>
  Claim C3, as the source has it. The claim reads "resumes from an iteration" as "the
  iteration selector was supplied"; the constructor decides by \<open>if not self.loaded_iter\<close>,
  and the selector 0 is supplied and still leaves \<open>loaded_iter\<close> unset. At the selector 0
  both files are written:
\<close>

theorem C3_counterexample:
  "completes (Scene_init demo_env demo_args (Some 0) False [1, 2] demo_world)
   \<and> file_writes (new_events demo_world
        (snd (Scene_init demo_env demo_args (Some 0) False [1, 2] demo_world))) =
      [(''out/input.ply'', Bytes ''ply''),
       (''out/cameras.json'', Json_array [(0, 4), (1, 5), (2, 1), (3, 2), (4, 3)])]"
  by code_simp

text \<open>
  Claim C3, amended. A construction that completes with \<open>loaded_iter\<close> an integer other
  than 0 writes no file: neither \<open>input.ply\<close> nor \<open>cameras.json\<close>. One that completes
  with \<open>loaded_iter\<close> unset or 0 writes exactly two files, in this order: to
  \<open>input.ply\<close> under the model path the bytes it has read from the point-cloud source
  of the scene description (the contents of that file after the loader has run; no
  bytes when the source is \<open>input.ply\<close> itself, which opening it for writing has
  emptied), and to \<open>cameras.json\<close> the JSON array of the cameras.
\<close>

theorem C3_resume_writes_nothing:
  assumes "Scene_init env args load_iteration shuffle resolution_scales w = (Inr self, w')"
  shows "(\<forall>N. self_loaded_iter self = Some N \<and> N \<noteq> 0 \<longrightarrow> file_writes (new_events w w') = [])
       \<and> (self_loaded_iter self = None \<or> self_loaded_iter self = Some 0 \<longrightarrow>
            (\<exists>si c. fst (load_scene_info env args w) = Inr si
               \<and> files (fs (snd (load_scene_info env args w))) (ply_path si) = Some c
               \<and> file_writes (new_events w w') =
                   [(os_path_join (model_path args) [''input.ply''],
                     if ply_path si = os_path_join (model_path args) [''input.ply'']
                     then Bytes [] else c),
                    (os_path_join (model_path args) [''cameras.json''],
                     Json_array (json_cams_of (camera_to_JSON env) (camlist_of si)))]))"
  using Scene_init_writes [OF assms]
  by (auto simp: truthy_def dump_writes_def split: option.splits if_splits)

theorem C3_resume_writes_nothing_witness:
  "completes (Scene_init demo_env demo_args (Some 5) True [1, 2] demo_world)
   \<and> file_writes (new_events demo_world
        (snd (Scene_init demo_env demo_args (Some 5) True [1, 2] demo_world))) = []
   \<and> completes (Scene_init demo_env demo_args None False [1, 2] demo_world)
   \<and> map fst (file_writes (new_events demo_world
        (snd (Scene_init demo_env demo_args None False [1, 2] demo_world)))) =
       [''out/input.ply'', ''out/cameras.json'']"
proof -
  have a: "self_loaded_iter (projr (fst (Scene_init demo_env demo_args (Some 5) True [1, 2] demo_world))) = Some 5"
    by code_simp
  have b: "self_loaded_iter (projr (fst (Scene_init demo_env demo_args None False [1, 2] demo_world))) = None"
    by code_simp
  have p: "os_path_join (model_path demo_args) [''input.ply''] = ''out/input.ply''"
    "os_path_join (model_path demo_args) [''cameras.json''] = ''out/cameras.json''"
    by code_simp+
  from C3_resume_writes_nothing [OF completesD [OF demo_completes_resumed]] a
  have "file_writes (new_events demo_world
        (snd (Scene_init demo_env demo_args (Some 5) True [1, 2] demo_world))) = []"
    by simp
  moreover from C3_resume_writes_nothing [OF completesD [OF demo_completes_fresh]] b
  have "map fst (file_writes (new_events demo_world
        (snd (Scene_init demo_env demo_args None False [1, 2] demo_world)))) =
       [''out/input.ply'', ''out/cameras.json'']"
    unfolding p by auto
  ultimately show ?thesis using demo_completes_resumed demo_completes_fresh by simp
qed

text \<open>
  Claim C5. In fresh-training mode the JSON array written to \<open>cameras.json\<close> has
  exactly \<open>len(test_cameras) + len(train_cameras)\<close> entries, one per camera, the entry
  at position \<open>i\<close> being the camera at position \<open>i\<close> of the test cameras followed by the
  train cameras, serialized with the id \<open>i\<close>; and what a run writes does not depend on
  the shuffle flag, whatever the outcome of the run.
\<close>

theorem C5_cameras_json:
  assumes "Scene_init env args load_iteration shuffle resolution_scales w = (Inr self, w')"
    and "\<not> truthy (self_loaded_iter self)"
    and "fst (load_scene_info env args w) = Inr si"
  shows "writes_to (os_path_join (model_path args) [''cameras.json'']) (new_events w w') =
           [Json_array (map (\<lambda>i. camera_to_JSON env i ((test_cameras si @ train_cameras si) ! i))
              [0..<length (test_cameras si) + length (train_cameras si)])]
       \<and> file_writes (new_events w (snd (Scene_init env args load_iteration True resolution_scales w))) =
         file_writes (new_events w (snd (Scene_init env args load_iteration False resolution_scales w)))"
proof -
  from Scene_init_writes [OF assms(1)] assms(2,3) obtain c where
    "file_writes (new_events w w') = dump_writes env (model_path args) si c"
    by auto
  then have "writes_to (os_path_join (model_path args) [''cameras.json'']) (new_events w w') =
      [Json_array (json_cams_of (camera_to_JSON env) (camlist_of si))]"
    using input_ply_not_cameras_json [of "model_path args"]
    by (simp add: writes_to_def dump_writes_def)
  then show ?thesis
    by (simp add: json_cams_of_nth camlist_of_append Scene_init_file_writes)
qed

theorem C5_cameras_json_witness:
  "completes (Scene_init demo_env demo_args None True [1, 2] demo_world)
   \<and> writes_to ''out/cameras.json'' (new_events demo_world
        (snd (Scene_init demo_env demo_args None True [1, 2] demo_world))) =
      [Json_array [(0, 4), (1, 5), (2, 1), (3, 2), (4, 3)]]"
proof -
  have c: "completes (Scene_init demo_env demo_args None True [1, 2] demo_world)"
    by code_simp
  have b: "\<not> truthy (self_loaded_iter (projr (fst (Scene_init demo_env demo_args None True [1, 2] demo_world))))"
    by code_simp
  have p: "os_path_join (model_path demo_args) [''cameras.json''] = ''out/cameras.json''"
    by code_simp
  have j: "map (\<lambda>i. camera_to_JSON demo_env i
        ((test_cameras (demo_info ''data/sparse/0/points3D.ply'')
          @ train_cameras (demo_info ''data/sparse/0/points3D.ply'')) ! i))
      [0..<length (test_cameras (demo_info ''data/sparse/0/points3D.ply''))
         + length (train_cameras (demo_info ''data/sparse/0/points3D.ply''))]
     = [(0, 4), (1, 5), (2, 1), (3, 2), (4, 3)]"
    by code_simp
  from C5_cameras_json [OF completesD [OF c] b demo_scene_info] c
  show ?thesis unfolding p j by simp
qed

subsection \<open>The selector 0\<close>

text \<open>
  Claim C10. A construction with the iteration selector 0 behaves exactly like one with
  no selector: the two runs are equal, result and world. When it completes,
  \<open>loaded_iter\<close> is unset, \<open>input.ply\<close> and \<open>cameras.json\<close> are written, and the model
  is initialised by \<open>create_from_pcd\<close> (from the point cloud of the scene description
  and the scene extent) and not restored by \<open>load_ply\<close>.
\<close>

theorem C10_selector_zero:
  "Scene_init env args (Some 0) shuffle resolution_scales w =
     Scene_init env args None shuffle resolution_scales w
   \<and> (\<forall>self w'. Scene_init env args (Some 0) shuffle resolution_scales w = (Inr self, w') \<longrightarrow>
          self_loaded_iter self = None
        \<and> map fst (file_writes (new_events w w')) =
            [os_path_join (model_path args) [''input.ply''],
             os_path_join (model_path args) [''cameras.json'']]
        \<and> load_ply_calls (new_events w w') = []
        \<and> (\<exists>si. fst (load_scene_info env args w) = Inr si
              \<and> create_from_pcd_calls (new_events w w') =
                  [(point_cloud si, self_cameras_extent self)]))"
proof (intro conjI allI impI)
  show "Scene_init env args (Some 0) shuffle resolution_scales w =
     Scene_init env args None shuffle resolution_scales w"
    by (simp add: Scene_init_def resolve_iteration_def truthy_def)
next
  fix self w'
  assume run: "Scene_init env args (Some 0) shuffle resolution_scales w = (Inr self, w')"
  from Scene_init_loaded_iter(1) [OF run]
  show none: "self_loaded_iter self = None"
    by (simp add: resolve_iteration_def truthy_def)
  then have nt: "\<not> truthy (self_loaded_iter self)" by (simp add: truthy_def)
  from Scene_init_writes [OF run] nt
  show "map fst (file_writes (new_events w w')) =
            [os_path_join (model_path args) [''input.ply''],
             os_path_join (model_path args) [''cameras.json'']]"
    by (auto simp: dump_writes_def)
  from Scene_init_model_calls(1) [OF run] nt
  show "load_ply_calls (new_events w w') = []" by simp
  from Scene_init_model_calls(2) [OF run] nt
  show "\<exists>si. fst (load_scene_info env args w) = Inr si
              \<and> create_from_pcd_calls (new_events w w') =
                  [(point_cloud si, self_cameras_extent self)]" by simp
qed

theorem C10_selector_zero_witness:
  "completes (Scene_init demo_env demo_args (Some 0) False [1, 2] demo_world)
   \<and> self_loaded_iter (projr (fst (Scene_init demo_env demo_args (Some 0) False [1, 2] demo_world))) = None
   \<and> load_ply_calls (new_events demo_world
        (snd (Scene_init demo_env demo_args (Some 0) False [1, 2] demo_world))) = []
   \<and> Scene_init demo_env demo_args (Some 0) False [1, 2] demo_world =
       Scene_init demo_env demo_args None False [1, 2] demo_world"
  using C10_selector_zero [of demo_env demo_args False "[1, 2]" demo_world]
    completesD [OF demo_completes_zero] demo_completes_zero
  by blast

subsection \<open>The dataset type\<close>

text \<open>
  Claim C4. The dataset type is decided by two presence tests (\<open>os.path.exists\<close>) under
  the source path. When \<open>sparse\<close> is there, the Colmap loader is the one called, and
  the scene description is what it returns. When \<open>sparse\<close> is not there and
  \<open>transforms_train.json\<close> is, the Blender loader is the one called. When neither is
  there, the construction fails with the assertion error "Could not recognize scene
  type!", and no loader is called; nor is a file written or the model touched.
\<close>

theorem C4_dataset_dispatch:
  "(os_path_exists (fs w) (os_path_join (source_path args) [''sparse'']) \<longrightarrow>
       loader_calls (new_events w (snd (Scene_init env args load_iteration shuffle resolution_scales w))) =
         [''Colmap'']
     \<and> fst (load_scene_info env args w) =
         Inr (fst (Colmap env (source_path args) (images args) (eval args) (fs w))))
   \<and> (\<not> os_path_exists (fs w) (os_path_join (source_path args) [''sparse''])
      \<and> os_path_exists (fs w) (os_path_join (source_path args) [''transforms_train.json'']) \<longrightarrow>
       loader_calls (new_events w (snd (Scene_init env args load_iteration shuffle resolution_scales w))) =
         [''Blender'']
     \<and> fst (load_scene_info env args w) =
         Inr (fst (Blender env (source_path args) (white_background args) (eval args) (fs w))))
   \<and> (\<not> os_path_exists (fs w) (os_path_join (source_path args) [''sparse''])
      \<and> \<not> os_path_exists (fs w) (os_path_join (source_path args) [''transforms_train.json'']) \<longrightarrow>
       fst (Scene_init env args load_iteration shuffle resolution_scales w) =
         Inl (AssertionError ''Could not recognize scene type!'')
     \<and> loader_calls (new_events w (snd (Scene_init env args load_iteration shuffle resolution_scales w))) = []
     \<and> file_writes (new_events w (snd (Scene_init env args load_iteration shuffle resolution_scales w))) = []
     \<and> load_ply_calls (new_events w (snd (Scene_init env args load_iteration shuffle resolution_scales w))) = []
     \<and> create_from_pcd_calls (new_events w (snd (Scene_init env args load_iteration shuffle resolution_scales w))) = [])"
proof (intro conjI impI)
  assume "os_path_exists (fs w) (os_path_join (source_path args) [''sparse''])"
  then show "loader_calls (new_events w (snd (Scene_init env args load_iteration shuffle resolution_scales w))) =
         [''Colmap'']"
    and "fst (load_scene_info env args w) =
         Inr (fst (Colmap env (source_path args) (images args) (eval args) (fs w)))"
    by (simp_all add: Scene_init_loader_calls load_scene_info_Colmap)
next
  assume "\<not> os_path_exists (fs w) (os_path_join (source_path args) [''sparse''])
      \<and> os_path_exists (fs w) (os_path_join (source_path args) [''transforms_train.json''])"
  then show "loader_calls (new_events w (snd (Scene_init env args load_iteration shuffle resolution_scales w))) =
         [''Blender'']"
    and "fst (load_scene_info env args w) =
         Inr (fst (Blender env (source_path args) (white_background args) (eval args) (fs w)))"
    by (simp_all add: Scene_init_loader_calls load_scene_info_Blender)
next
  assume a: "\<not> os_path_exists (fs w) (os_path_join (source_path args) [''sparse''])
      \<and> \<not> os_path_exists (fs w) (os_path_join (source_path args) [''transforms_train.json''])"
  then show f: "fst (Scene_init env args load_iteration shuffle resolution_scales w) =
         Inl (AssertionError ''Could not recognize scene type!'')"
    by (simp add: Scene_init_unrecognized)
  from a show "loader_calls (new_events w (snd (Scene_init env args load_iteration shuffle resolution_scales w))) = []"
    by (simp add: Scene_init_loader_calls)
  from a show "file_writes (new_events w (snd (Scene_init env args load_iteration shuffle resolution_scales w))) = []"
    by (simp add: Scene_init_file_writes expected_writes_def load_scene_info_unrecognized)
  from f have nc: "\<not> completes (Scene_init env args load_iteration shuffle resolution_scales w)"
    by (simp add: completes_def)
  from Scene_init_failed_model_calls [OF nc]
  show "load_ply_calls (new_events w (snd (Scene_init env args load_iteration shuffle resolution_scales w))) = []"
    and "create_from_pcd_calls (new_events w (snd (Scene_init env args load_iteration shuffle resolution_scales w))) = []"
    by simp_all
qed

theorem C4_dataset_dispatch_witness:
  "os_path_exists (fs demo_world) (os_path_join (source_path demo_args) [''sparse''])
   \<and> loader_calls (new_events demo_world
        (snd (Scene_init demo_env demo_args None True [1, 2] demo_world))) = [''Colmap'']
   \<and> \<not> os_path_exists (fs blender_world) (os_path_join (source_path demo_args) [''sparse''])
   \<and> os_path_exists (fs blender_world) (os_path_join (source_path demo_args) [''transforms_train.json''])
   \<and> loader_calls (new_events blender_world
        (snd (Scene_init demo_env demo_args None True [1, 2] blender_world))) = [''Blender'']
   \<and> \<not> os_path_exists (fs empty_world) (os_path_join (source_path demo_args) [''sparse''])
   \<and> \<not> os_path_exists (fs empty_world) (os_path_join (source_path demo_args) [''transforms_train.json''])
   \<and> fst (Scene_init demo_env demo_args None True [1, 2] empty_world) =
        Inl (AssertionError ''Could not recognize scene type!'')
   \<and> loader_calls (new_events empty_world
        (snd (Scene_init demo_env demo_args None True [1, 2] empty_world))) = []"
proof -
  have a: "os_path_exists (fs demo_world) (os_path_join (source_path demo_args) [''sparse''])"
    by code_simp
  have b: "\<not> os_path_exists (fs blender_world) (os_path_join (source_path demo_args) [''sparse''])"
    "os_path_exists (fs blender_world) (os_path_join (source_path demo_args) [''transforms_train.json''])"
    by code_simp+
  have c: "\<not> os_path_exists (fs empty_world) (os_path_join (source_path demo_args) [''sparse''])"
    "\<not> os_path_exists (fs empty_world) (os_path_join (source_path demo_args) [''transforms_train.json''])"
    by code_simp+
  from C4_dataset_dispatch [of demo_world demo_args demo_env None True "[1, 2]"] a
    C4_dataset_dispatch [of blender_world demo_args demo_env None True "[1, 2]"] b
    C4_dataset_dispatch [of empty_world demo_args demo_env None True "[1, 2]"] c
  show ?thesis by simp
qed

subsection \<open>The iteration that is loaded\<close>

text \<open>
  Claim C1, as the source has it. The claim says that every explicitly supplied integer
  \<open>N\<close> becomes \<open>loaded_iter\<close>. The constructor tests \<open>if load_iteration\<close>, which is
  false for 0: at the selector 0 the construction completes with \<open>loaded_iter\<close> unset.
\<close>

theorem C1_counterexample:
  "completes (Scene_init demo_env demo_args (Some 0) False [1, 2] demo_world)
   \<and> self_loaded_iter (projr (fst (Scene_init demo_env demo_args (Some 0) False [1, 2] demo_world)))
       = None
   \<and> self_loaded_iter (projr (fst (Scene_init demo_env demo_args (Some 0) False [1, 2] demo_world)))
       \<noteq> Some 0"
  by code_simp

text \<open>
  Claim C1, amended. In a construction that completes: with the selector \<open>-1\<close>
  ("latest"), \<open>loaded_iter\<close> is what the scanner finds under \<open>point_cloud\<close> in the model
  path, the highest iteration number there when there is one; with an integer \<open>N\<close>
  other than 0 and \<open>-1\<close>, \<open>loaded_iter\<close> is \<open>N\<close>; with no selector, and with the
  selector 0, \<open>loaded_iter\<close> stays unset.
\<close>

theorem C1_resolve_iteration:
  assumes "Scene_init env args load_iteration shuffle resolution_scales w = (Inr self, w')"
  shows "(load_iteration = Some (- 1) \<longrightarrow>
            self_loaded_iter self =
              searchForMaxIteration (fs w) (os_path_join (model_path args) [''point_cloud''])
          \<and> (iterations (fs w) (os_path_join (model_path args) [''point_cloud'']) \<noteq> [] \<longrightarrow>
               self_loaded_iter self =
                 Some (Max (set (iterations (fs w) (os_path_join (model_path args) [''point_cloud'']))))))
       \<and> (\<forall>N. load_iteration = Some N \<and> N \<noteq> 0 \<and> N \<noteq> - 1 \<longrightarrow> self_loaded_iter self = Some N)
       \<and> (load_iteration = None \<or> load_iteration = Some 0 \<longrightarrow> self_loaded_iter self = None)"
  using Scene_init_loaded_iter(1) [OF assms]
  by (auto simp: resolve_iteration_def truthy_def Let_def searchForMaxIteration_Max)

theorem C1_resolve_iteration_witness:
  "completes (Scene_init demo_env demo_args (Some (- 1)) True [1, 2] demo_world)
   \<and> self_loaded_iter (projr (fst (Scene_init demo_env demo_args (Some (- 1)) True [1, 2] demo_world)))
       = Some 30
   \<and> completes (Scene_init demo_env demo_args (Some 5) True [1, 2] demo_world)
   \<and> self_loaded_iter (projr (fst (Scene_init demo_env demo_args (Some 5) True [1, 2] demo_world)))
       = Some 5
   \<and> completes (Scene_init demo_env demo_args None False [1, 2] demo_world)
   \<and> self_loaded_iter (projr (fst (Scene_init demo_env demo_args None False [1, 2] demo_world)))
       = None"
proof -
  have i: "iterations (fs demo_world) (os_path_join (model_path demo_args) [''point_cloud''])
      = [7, 30]"
    by code_simp
  from C1_resolve_iteration [OF completesD [OF demo_completes_latest]]
  have "iterations (fs demo_world) (os_path_join (model_path demo_args) [''point_cloud'']) \<noteq> [] \<longrightarrow>
     self_loaded_iter (projr (fst (Scene_init demo_env demo_args (Some (- 1)) True [1, 2] demo_world)))
       = Some (Max (set (iterations (fs demo_world)
           (os_path_join (model_path demo_args) [''point_cloud'']))))"
    by blast
  then have "self_loaded_iter (projr (fst (Scene_init demo_env demo_args (Some (- 1)) True [1, 2] demo_world)))
       = Some 30" unfolding i by simp
  moreover from C1_resolve_iteration [OF completesD [OF demo_completes_resumed]]
  have "self_loaded_iter (projr (fst (Scene_init demo_env demo_args (Some 5) True [1, 2] demo_world)))
       = Some 5" by simp
  moreover from C1_resolve_iteration [OF completesD [OF demo_completes_fresh]]
  have "self_loaded_iter (projr (fst (Scene_init demo_env demo_args None False [1, 2] demo_world)))
       = None" by simp
  ultimately show ?thesis
    using demo_completes_latest demo_completes_resumed demo_completes_fresh by simp
qed

subsection \<open>Saving and restoring\<close>

text \<open>
  Claim C6, as the source has it. The claim speaks of any iteration \<open>N\<close>. At \<open>N = 0\<close>,
  \<open>save\<close> writes the checkpoint of iteration 0, and a construction with the selector 0
  on the world that \<open>save\<close> leaves does not restore the model: it calls
  \<open>create_from_pcd\<close>, and \<open>load_ply\<close> not at all.
\<close>

theorem C6_counterexample:
  "new_events (saved_world 0) (save demo_scene 0 (saved_world 0)) =
     [Save_ply ''out/point_cloud/iteration_0/point_cloud.ply'']
   \<and> completes (Scene_init demo_env demo_args (Some 0) False [1, 2] (saved_world 0))
   \<and> load_ply_calls (new_events (saved_world 0)
        (snd (Scene_init demo_env demo_args (Some 0) False [1, 2] (saved_world 0)))) = []
   \<and> create_from_pcd_calls (new_events (saved_world 0)
        (snd (Scene_init demo_env demo_args (Some 0) False [1, 2] (saved_world 0)))) = [(7, 9)]"
  by code_simp

text \<open>
  Claim C6, amended. For every iteration \<open>N\<close> other than 0 and \<open>-1\<close>: \<open>save(N)\<close> of a
  scene has the model persist its state to \<open>point_cloud/iteration_<N>/point_cloud.ply\<close>
  under the model path, and a construction with the same model path and the selector
  \<open>N\<close> that completes restores the model from exactly that path, by one call of
  \<open>load_ply\<close>, and does not call \<open>create_from_pcd\<close>.
\<close>

theorem C6_save_then_load:
  assumes "N \<noteq> 0" and "N \<noteq> - 1"
    and "self_model_path self = model_path args"
    and "Scene_init env args (Some N) shuffle resolution_scales w2 = (Inr self2, w2')"
  shows "new_events w (save self N w) =
           [Save_ply (join_step (model_path args)
              (''point_cloud/iteration_'' @ str_int N @ ''/point_cloud.ply''))]
       \<and> load_ply_calls (new_events w2 w2') =
           [join_step (model_path args)
              (''point_cloud/iteration_'' @ str_int N @ ''/point_cloud.ply'')]
       \<and> create_from_pcd_calls (new_events w2 w2') = []"
proof -
  have s: "new_events w (save self N w) =
           [Save_ply (join_step (model_path args)
              (''point_cloud/iteration_'' @ str_int N @ ''/point_cloud.ply''))]"
    by (simp only: save_events assms(3) save_path)
  from Scene_init_loaded_iter [OF assms(4)] assms(1,2)
  have li: "self_loaded_iter self2 = Some N" and mp: "self_model_path self2 = model_path args"
    by (simp_all add: resolve_iteration_def truthy_def Let_def)
  from li assms(1) have t: "truthy (self_loaded_iter self2)" by (simp add: truthy_def)
  have so: "str_opt (Some N) = str_int N" by (simp add: str_opt_def)
  from assms(1) have tN: "truthy (Some N)" by (simp add: truthy_def)
  note m = Scene_init_model_calls(1) [OF assms(4), unfolded li mp so load_path]
  from m tN
  have l: "load_ply_calls (new_events w2 w2') =
           [join_step (model_path args)
              (''point_cloud/iteration_'' @ str_int N @ ''/point_cloud.ply'')]"
    by simp
  from Scene_init_model_calls(2) [OF assms(4)] t
  have c: "create_from_pcd_calls (new_events w2 w2') = []" by auto
  from s l c show ?thesis by simp
qed

theorem C6_save_then_load_witness:
  "(5 :: int) \<noteq> 0 \<and> (5 :: int) \<noteq> - 1
   \<and> self_model_path demo_scene = model_path demo_args
   \<and> completes (Scene_init demo_env demo_args (Some 5) True [1, 2] (saved_world 5))
   \<and> new_events demo_world (save demo_scene 5 demo_world) =
        [Save_ply ''out/point_cloud/iteration_5/point_cloud.ply'']
   \<and> load_ply_calls (new_events (saved_world 5)
        (snd (Scene_init demo_env demo_args (Some 5) True [1, 2] (saved_world 5)))) =
        [''out/point_cloud/iteration_5/point_cloud.ply'']"
proof -
  have p: "join_step (model_path demo_args) (''point_cloud/iteration_'' @ str_int 5 @ ''/point_cloud.ply'')
      = ''out/point_cloud/iteration_5/point_cloud.ply''"
    by code_simp
  have n: "(5 :: int) \<noteq> 0" "(5 :: int) \<noteq> - 1" by simp_all
  from C6_save_then_load [OF n demo_scene_path completesD [OF demo_saved_completes],
      of demo_world]
  show ?thesis unfolding p using demo_scene_path demo_saved_completes by simp
qed

subsection \<open>Shuffling\<close>

text \<open>
  Claim C7. With the shuffle flag set, the train cameras and the test cameras are each
  permuted by \<open>random.shuffle\<close>, one call for each list, the second drawing from the
  generator where the first has left it: each list keeps its elements, only their order
  changes, and the lists of every resolution scale are built from the same two
  shuffled lists. The order that comes out is decided by the draws, one list
  independently of the other: for every ordering of the train cameras and every
  ordering of the test cameras there are draws, each within the range asked for, on
  which the construction with the flag set builds its lists in exactly these two
  orderings. A generator that keeps its contract makes every shuffle return a
  permutation. With the flag unset, the lists of every scale are built from the
  loader's lists in the loader's order, so two constructions with the flag unset on
  the same scene description give lists with the same items in the same order,
  whatever the state of the generator. (With which probability each ordering comes out
  is a statement about the generator, which the model takes as a parameter.)
\<close>

theorem C7_shuffle:
  assumes "Scene_init env args load_iteration shuffle resolution_scales w = (Inr self, w')"
    and "fst (load_scene_info env args w) = Inr si"
  shows "(shuffle \<longrightarrow>
            (\<exists>train test g.
                random_shuffle (randbelow env) (train_cameras si) (rng w) = (Inr train, g)
              \<and> random_shuffle (randbelow env) (test_cameras si) g = (Inr test, rng w')
              \<and> mset train = mset (train_cameras si) \<and> mset test = mset (test_cameras si)
              \<and> (\<forall>scale \<in> set resolution_scales.
                    map_option items (self_train_cameras self scale) =
                      Some (cameraList_from_camInfos env train scale args)
                  \<and> map_option items (self_test_cameras self scale) =
                      Some (cameraList_from_camInfos env test scale args))))
       \<and> (\<forall>train test.
            mset train = mset (train_cameras si) \<and> mset test = mset (test_cameras si) \<longrightarrow>
            (\<exists>draws self2 w2.
                Scene_init (replaying env) args load_iteration True resolution_scales
                  (with_draws w draws) = (Inr self2, w2)
              \<and> (\<forall>scale \<in> set resolution_scales.
                    map_option items (self_train_cameras self2 scale) =
                      Some (cameraList_from_camInfos env train scale args)
                  \<and> map_option items (self_test_cameras self2 scale) =
                      Some (cameraList_from_camInfos env test scale args))))
       \<and> randbelow_ok (randbelow (replaying env))
       \<and> (\<not> shuffle \<longrightarrow>
            (\<forall>scale \<in> set resolution_scales.
                map_option items (self_train_cameras self scale) =
                  Some (cameraList_from_camInfos env (train_cameras si) scale args)
              \<and> map_option items (self_test_cameras self scale) =
                  Some (cameraList_from_camInfos env (test_cameras si) scale args))
          \<and> (\<forall>load_iteration2 w2 self2 w2'.
                Scene_init env args load_iteration2 False resolution_scales w2 = (Inr self2, w2')
                \<and> fst (load_scene_info env args w2) = Inr si \<longrightarrow>
                (\<forall>scale. map_option items (self_train_cameras self2 scale) =
                            map_option items (self_train_cameras self scale)
                       \<and> map_option items (self_test_cameras self2 scale) =
                            map_option items (self_test_cameras self scale))))
       \<and> (randbelow_ok (randbelow env) \<longrightarrow>
            (\<forall>(x :: 'a list) g. \<exists>y g'.
                random_shuffle (randbelow env) x g = (Inr y, g') \<and> mset y = mset x))"
proof -
  have on: "\<exists>train test g.
                random_shuffle (randbelow env) (train_cameras si) (rng w) = (Inr train, g)
              \<and> random_shuffle (randbelow env) (test_cameras si) g = (Inr test, rng w')
              \<and> mset train = mset (train_cameras si) \<and> mset test = mset (test_cameras si)
              \<and> (\<forall>scale \<in> set resolution_scales.
                    map_option items (self_train_cameras self scale) =
                      Some (cameraList_from_camInfos env train scale args)
                  \<and> map_option items (self_test_cameras self scale) =
                      Some (cameraList_from_camInfos env test scale args))"
    if sh: "shuffle"
  proof -
    from Scene_init_cameras [OF assms] sh obtain train test g where
      t: "random_shuffle (randbelow env) (train_cameras si) (rng w) = (Inr train, g)"
      and e: "random_shuffle (randbelow env) (test_cameras si) g = (Inr test, rng w')"
      and m: "\<forall>s. map_option items (self_train_cameras self s) =
           (if s \<in> set resolution_scales
            then Some (cameraList_from_camInfos env train s args) else None)"
        "\<forall>s. map_option items (self_test_cameras self s) =
           (if s \<in> set resolution_scales
            then Some (cameraList_from_camInfos env test s args) else None)"
      by auto
    from random_shuffle_mset [OF t] random_shuffle_mset [OF e] t e m
    show ?thesis
      by (intro exI [of _ train] exI [of _ test] exI [of _ g]) simp
  qed
  have reach: "\<exists>draws self2 w2.
                Scene_init (replaying env) args load_iteration True resolution_scales
                  (with_draws w draws) = (Inr self2, w2)
              \<and> (\<forall>scale \<in> set resolution_scales.
                    map_option items (self_train_cameras self2 scale) =
                      Some (cameraList_from_camInfos env train scale args)
                  \<and> map_option items (self_test_cameras self2 scale) =
                      Some (cameraList_from_camInfos env test scale args))"
    if p: "mset train = mset (train_cameras si) \<and> mset test = mset (test_cameras si)"
    for train test
  proof -
    from p have tr: "mset train = mset (train_cameras si)"
      and te: "mset test = mset (test_cameras si)" by simp_all
    from Scene_init_replay [OF assms tr te] obtain draws self2 w2 where
      "Scene_init (replaying env) args load_iteration True resolution_scales
         (with_draws w draws) = (Inr self2, w2)"
      "\<forall>s. map_option items (self_train_cameras self2 s) =
         (if s \<in> set resolution_scales
          then Some (cameraList_from_camInfos env train s args) else None)"
      "\<forall>s. map_option items (self_test_cameras self2 s) =
         (if s \<in> set resolution_scales
          then Some (cameraList_from_camInfos env test s args) else None)"
      by blast
    then show ?thesis
      by (intro exI [of _ draws] exI [of _ self2] exI [of _ w2]) simp
  qed
  have rp: "randbelow_ok (randbelow (replaying env))"
    using randbelow_ok_replay by (simp add: replaying_def)
  have off: "(\<forall>scale \<in> set resolution_scales.
                map_option items (self_train_cameras self scale) =
                  Some (cameraList_from_camInfos env (train_cameras si) scale args)
              \<and> map_option items (self_test_cameras self scale) =
                  Some (cameraList_from_camInfos env (test_cameras si) scale args))
          \<and> (\<forall>load_iteration2 w2 self2 w2'.
                Scene_init env args load_iteration2 False resolution_scales w2 = (Inr self2, w2')
                \<and> fst (load_scene_info env args w2) = Inr si \<longrightarrow>
                (\<forall>scale. map_option items (self_train_cameras self2 scale) =
                            map_option items (self_train_cameras self scale)
                       \<and> map_option items (self_test_cameras self2 scale) =
                            map_option items (self_test_cameras self scale)))"
    if ns: "\<not> shuffle"
  proof -
    from Scene_init_cameras [OF assms] ns have
      m: "\<forall>s. map_option items (self_train_cameras self s) =
           (if s \<in> set resolution_scales
            then Some (cameraList_from_camInfos env (train_cameras si) s args) else None)"
        "\<forall>s. map_option items (self_test_cameras self s) =
           (if s \<in> set resolution_scales
            then Some (cameraList_from_camInfos env (test_cameras si) s args) else None)"
      by auto
    have "\<forall>scale. map_option items (self_train_cameras self2 scale) =
                            map_option items (self_train_cameras self scale)
                       \<and> map_option items (self_test_cameras self2 scale) =
                            map_option items (self_test_cameras self scale)"
      if a: "Scene_init env args load_iteration2 False resolution_scales w2 = (Inr self2, w2')
                \<and> fst (load_scene_info env args w2) = Inr si"
      for load_iteration2 w2 self2 w2'
    proof -
      from Scene_init_cameras [of env args load_iteration2 False resolution_scales w2 self2 w2' si] a
      have "\<forall>s. map_option items (self_train_cameras self2 s) =
           (if s \<in> set resolution_scales
            then Some (cameraList_from_camInfos env (train_cameras si) s args) else None)"
        "\<forall>s. map_option items (self_test_cameras self2 s) =
           (if s \<in> set resolution_scales
            then Some (cameraList_from_camInfos env (test_cameras si) s args) else None)"
        by auto
      with m show ?thesis by simp
    qed
    with m show ?thesis by simp
  qed
  have ok: "\<forall>(x :: 'a list) g. \<exists>y g'.
                random_shuffle (randbelow env) x g = (Inr y, g') \<and> mset y = mset x"
    if ok: "randbelow_ok (randbelow env)"
  proof (intro allI)
    fix x :: "'a list" and g
    from random_shuffle_ok [OF ok, of x g] obtain y g' where
      r: "random_shuffle (randbelow env) x g = (Inr y, g')" by blast
    from random_shuffle_mset [OF r] r
    show "\<exists>y g'. random_shuffle (randbelow env) x g = (Inr y, g') \<and> mset y = mset x"
      by blast
  qed
  from on reach rp off ok show ?thesis by blast
qed

theorem C7_shuffle_witness:
  "completes (Scene_init demo_env demo_args None True [1, 2] demo_world)
   \<and> map_option items
       (self_train_cameras (projr (fst (Scene_init demo_env demo_args None True [1, 2] demo_world))) 1)
       = Some [(3, 1), (2, 1), (1, 1)]
   \<and> (\<exists>draws self2 w2.
         Scene_init (replaying demo_env) demo_args None True [1, 2] (with_draws demo_world draws)
           = (Inr self2, w2)
       \<and> map_option items (self_train_cameras self2 1) = Some [(2, 1), (3, 1), (1, 1)]
       \<and> map_option items (self_test_cameras self2 1) = Some [(5, 1), (4, 1)])
   \<and> completes (Scene_init demo_env demo_args None False [1, 2] demo_world)
   \<and> map_option items
       (self_train_cameras (projr (fst (Scene_init demo_env demo_args None False [1, 2] demo_world))) 1)
       = Some [(1, 1), (2, 1), (3, 1)]
   \<and> randbelow_ok (randbelow demo_env)
   \<and> (\<exists>y g'. random_shuffle (randbelow demo_env) [1, 2, 3 :: nat] 0 = (Inr y, g')
         \<and> mset y = mset [1, 2, 3])"
proof -
  note on = C7_shuffle [OF completesD [OF demo_completes_shuffled] demo_scene_info]
  note off = C7_shuffle [OF completesD [OF demo_completes_fresh] demo_scene_info]
  from on obtain train where
    "random_shuffle (randbelow demo_env) (train_cameras (demo_info ''data/sparse/0/points3D.ply''))
       (rng demo_world) = (Inr train, snd (random_shuffle (randbelow demo_env)
          (train_cameras (demo_info ''data/sparse/0/points3D.ply'')) (rng demo_world)))"
    and tr: "\<forall>scale \<in> set [1, 2].
       map_option items
         (self_train_cameras (projr (fst (Scene_init demo_env demo_args None True [1, 2] demo_world))) scale)
         = Some (cameraList_from_camInfos demo_env train scale demo_args)"
    by auto
  with demo_shuffle_train have "train = [3, 2, 1]" by simp
  with tr have a: "map_option items
       (self_train_cameras (projr (fst (Scene_init demo_env demo_args None True [1, 2] demo_world))) 1)
       = Some [(3, 1), (2, 1), (1, 1)]"
    by (simp add: demo_env_def)
  have m: "mset [2, 3, 1] = mset (train_cameras (demo_info ''data/sparse/0/points3D.ply''))
       \<and> mset [5, 4] = mset (test_cameras (demo_info ''data/sparse/0/points3D.ply''))"
    by (simp add: demo_info_def)
  have v2: "cameraList_from_camInfos demo_env [2, 3, 1] 1 demo_args = [(2, 1), (3, 1), (1, 1)]"
    "cameraList_from_camInfos demo_env [5, 4] 1 demo_args = [(5, 1), (4, 1)]"
    by (simp_all add: demo_env_def)
  from on m have "\<exists>draws self2 w2.
         Scene_init (replaying demo_env) demo_args None True [1, 2] (with_draws demo_world draws)
           = (Inr self2, w2)
       \<and> (\<forall>scale \<in> set [1, 2].
             map_option items (self_train_cameras self2 scale) =
               Some (cameraList_from_camInfos demo_env [2, 3, 1] scale demo_args)
           \<and> map_option items (self_test_cameras self2 scale) =
               Some (cameraList_from_camInfos demo_env [5, 4] scale demo_args))"
    by blast
  then have r: "\<exists>draws self2 w2.
         Scene_init (replaying demo_env) demo_args None True [1, 2] (with_draws demo_world draws)
           = (Inr self2, w2)
       \<and> map_option items (self_train_cameras self2 1) = Some [(2, 1), (3, 1), (1, 1)]
       \<and> map_option items (self_test_cameras self2 1) = Some [(5, 1), (4, 1)]"
    unfolding v2 [symmetric] by fastforce
  have v: "cameraList_from_camInfos demo_env
      (train_cameras (demo_info ''data/sparse/0/points3D.ply'')) 1 demo_args
      = [(1, 1), (2, 1), (3, 1)]"
    by code_simp
  from off have "map_option items
       (self_train_cameras (projr (fst (Scene_init demo_env demo_args None False [1, 2] demo_world))) 1)
       = Some (cameraList_from_camInfos demo_env
           (train_cameras (demo_info ''data/sparse/0/points3D.ply'')) 1 demo_args)"
    by auto
  then have b: "map_option items
       (self_train_cameras (projr (fst (Scene_init demo_env demo_args None False [1, 2] demo_world))) 1)
       = Some [(1, 1), (2, 1), (3, 1)]"
    unfolding v .
  from on demo_randbelow_ok
  have c: "\<exists>y g'. random_shuffle (randbelow demo_env) [1, 2, 3 :: nat] 0 = (Inr y, g')
         \<and> mset y = mset [1, 2, 3]"
    by blast
  from a r b c demo_completes_shuffled demo_completes_fresh demo_randbelow_ok
  show ?thesis by simp
qed

end
